theory Spec2Isabelle
  imports Main "HOL-Library.Multiset"
begin

section \<open>Values shared by Worker and Cluster\<close>

text \<open>
  A thrown or rejected value. JavaScript lets any value be thrown, and the code reads
  \<open>err.message\<close> of what it catches and tests \<open>errorState\<close> for truthiness, so three
  kinds are told apart: \<open>Error m\<close> is an \<open>Error\<close> object with its message (any other
  truthy value behaves like it); \<open>Nullish\<close> is \<open>null\<close> or \<open>undefined\<close>, which is falsy
  and of which reading \<open>.message\<close> throws a TypeError; \<open>Falsy\<close> is one of the other
  falsy values (\<open>false\<close>, \<open>0\<close>, the empty string), of which \<open>.message\<close> is just
  undefined. \<open>TypeError\<close> is the error thrown by reading a property of \<open>null\<close> or
  \<open>undefined\<close>.
  \<open>WorkResult\<close> is the tagged union of Worker.ts: \<open>WorkError\<close> is
  \<open>{type: "error", error}\<close> and \<open>WorkData\<close> is \<open>{type: "success", data}\<close>.
  The field \<open>data\<close> has the type \<open>any\<close>: \<open>None\<close> is the value \<open>undefined\<close> of the
  local variable \<open>result\<close> when the task never assigned it.
\<close>

datatype js_error = Error string | Nullish | Falsy

definition truthy :: "js_error \<Rightarrow> bool" where
  "truthy v = (case v of Error m \<Rightarrow> True | Nullish \<Rightarrow> False | Falsy \<Rightarrow> False)"

definition TypeError :: js_error where
  "TypeError = Error ''TypeError: cannot read properties of null''"

datatype 'r WorkResult = WorkError js_error | WorkData "'r option"

text \<open>
  A \<open>TaskFunction\<close> is called with \<open>{page, data, worker: {id}}\<close> and awaited through
  \<open>timeoutExecute(timeout, ...)\<close>. The helper \<open>timeoutExecute\<close> lives in util, which is
  not part of the sources at hand, so the model takes the settled outcome of that awaited
  promise as the task itself: given the job data, the worker id and the timeout it either
  rejects (\<open>Inl\<close>: the task threw or the deadline passed) or fulfils with a value.
\<close>

type_synonym ('d, 'r) TaskFunction = "'d \<Rightarrow> nat \<Rightarrow> int \<Rightarrow> js_error + 'r"

text \<open>
  Modelled from the spec: the job (Job.ts is not part of the sources at hand), with the
  fields that Worker.ts and the cluster read. \<open>jid\<close> stands for the identity of the JavaScript object, so that
  equality of job values is reference equality. \<open>getUrl\<close> and \<open>getDomain\<close> are the
  derived attributes \<open>getUrl()\<close> and \<open>getDomain()\<close>; \<open>executeCallbacks\<close> is the handle of
  the promise created by \<open>execute\<close>, absent for a job queued with \<open>queue\<close>.
\<close>

record ('d, 'r) Job =
  jid :: nat
  data :: 'd
  getUrl :: "string option"
  getDomain :: "string option"
  taskFunction :: "('d, 'r) TaskFunction option"
  executeCallbacks :: "nat option"
  tries :: int
  errors :: "js_error list"

section \<open>Worker\<close>

text \<open>
  The provider side of one \<open>handle\<close> call. A \<open>JobInstance\<close> is what
  \<open>browser.jobInstance(data)\<close> resolves to: its page may emit "error" events while the
  task is awaited and while the release is awaited (each list is in order of emission),
  and its \<open>close()\<close> either resolves (\<open>None\<close>) or rejects.
  A \<open>WorkerInstance\<close> is the worker's \<open>browser\<close>: \<open>canHandle\<close> is optional,
  \<open>jobInstance d k\<close> is the outcome of the call made after \<open>k\<close> earlier failures within
  the same \<open>handle\<close>, and \<open>repair k\<close> is the outcome of the \<open>repair()\<close> called after
  \<open>k\<close> earlier calls of it within the same \<open>handle\<close>: it resolves (\<open>None\<close>) or
  rejects. An acquired instance has its \<open>resources.page\<close>, as the interface declares.
\<close>

record JobInstance =
  page_errors_task :: "js_error list"
  page_errors_release :: "js_error list"
  close_result :: "js_error option"

record 'd WorkerInstance =
  canHandle :: "('d \<Rightarrow> bool) option"
  jobInstance :: "'d \<Rightarrow> nat \<Rightarrow> js_error + JobInstance"
  repair :: "nat \<Rightarrow> js_error option"

datatype provider_call = CallJobInstance | CallRepair | CallTask | CallClose

record ('d, 'r) Worker =
  wid :: nat
  browser :: "'d WorkerInstance"
  activeJobs :: "('d, 'r) Job list"

definition BROWSER_INSTANCE_TRIES :: nat where
  "BROWSER_INSTANCE_TRIES = 10"

text \<open>
  \<open>this.browser.canHandle?.(job.data) || this.activeJobs.length === 0\<close>:
  the optional call yields \<open>undefined\<close> when the provider has no \<open>canHandle\<close>, and
  \<open>||\<close> moves on to its right operand whenever the left one is falsy.
\<close>

definition Worker_canHandle :: "('d, 'r) Worker \<Rightarrow> ('d, 'r) Job \<Rightarrow> bool" where
  "Worker_canHandle w job =
     (case canHandle (browser w) of
        None \<Rightarrow> length (activeJobs w) = 0
      | Some f \<Rightarrow> (if f (data job) then True else length (activeJobs w) = 0))"

definition isIdle :: "('d, 'r) Worker \<Rightarrow> bool" where
  "isIdle w = (length (activeJobs w) = 0)"

text \<open>
  \<open>Array.prototype.indexOf\<close> (first index, or \<open>-1\<close>) and
  \<open>Array.prototype.splice(start, 1)\<close>: a negative start counts from the end and is
  clamped at 0, a start beyond the end is clamped at the length.
\<close>

fun indexOf_from :: "int \<Rightarrow> 'a \<Rightarrow> 'a list \<Rightarrow> int" where
  "indexOf_from i x [] = -1"
| "indexOf_from i x (y # ys) = (if y = x then i else indexOf_from (i + 1) x ys)"

definition indexOf :: "'a \<Rightarrow> 'a list \<Rightarrow> int" where
  "indexOf x xs = indexOf_from 0 x xs"

definition splice1 :: "int \<Rightarrow> 'a list \<Rightarrow> 'a list" where
  "splice1 start xs =
     (let n = int (length xs);
          s = (if start < 0 then max (n + start) 0 else min start n)
      in take (nat s) xs @ drop (nat s + 1) xs)"

text \<open>
  A worker may run several \<open>handle\<close> calls at once (a provider with \<open>canHandle\<close> can
  accept a job while another is active), and each call suspends at its awaits. What the
  other calls on the same worker do to \<open>activeJobs\<close> while one call is suspended is a
  sequence of their own first and last steps: \<open>push(job)\<close> on entry and
  \<open>splice(indexOf(job), 1)\<close> before the return. \<open>others_ok\<close> says that each such
  removal finds its job in the list, as it does when the call that removes it has
  pushed it before.
\<close>

datatype ('d, 'r) activity = Pushed "('d, 'r) Job" | Spliced "('d, 'r) Job"

fun activity_job :: "('d, 'r) activity \<Rightarrow> ('d, 'r) Job" where
  "activity_job (Pushed k) = k"
| "activity_job (Spliced k) = k"

fun others_apply :: "('d, 'r) activity list \<Rightarrow> ('d, 'r) Job list \<Rightarrow> ('d, 'r) Job list" where
  "others_apply [] xs = xs"
| "others_apply (Pushed k # as) xs = others_apply as (xs @ [k])"
| "others_apply (Spliced k # as) xs = others_apply as (splice1 (indexOf k xs) xs)"

fun others_ok :: "('d, 'r) Job list \<Rightarrow> ('d, 'r) activity list \<Rightarrow> bool" where
  "others_ok xs [] = True"
| "others_ok xs (Pushed k # as) = others_ok (xs @ [k]) as"
| "others_ok xs (Spliced k # as) = (k \<in> set xs \<and> others_ok (splice1 (indexOf k xs) xs) as)"

text \<open>
  The acquisition loop of \<open>handle\<close>: \<open>while (jobInstance === null)\<close> with \<open>k\<close>
  for the local counter \<open>tries\<close> of the failures. The \<open>catch\<close> first builds the debug
  message from \<open>err.message\<close>, which throws a TypeError for a rejection with \<open>null\<close>
  or \<open>undefined\<close>; then it awaits \<open>repair()\<close>, whose rejection leaves \<open>handle\<close>; then
  it counts, and the tenth failure throws. On success the result is the job instance
  with the number of failures before it. The provider calls made so far come with it.
\<close>

function acquire ::
  "(nat \<Rightarrow> js_error + JobInstance) \<Rightarrow> (nat \<Rightarrow> js_error option) \<Rightarrow> nat \<Rightarrow> provider_call list
     \<Rightarrow> (js_error + JobInstance \<times> nat) \<times> provider_call list" where
  "acquire get rep k calls =
     (case get k of
        Inr ji \<Rightarrow> (Inr (ji, k), calls @ [CallJobInstance])
      | Inl err \<Rightarrow>
          (if err = Nullish then (Inl TypeError, calls @ [CallJobInstance])
           else
             (let calls' = calls @ [CallJobInstance, CallRepair]
              in case rep k of
                   Some repair_err \<Rightarrow> (Inl repair_err, calls')
                 | None \<Rightarrow>
                     (let k' = k + 1
                      in if k' \<ge> BROWSER_INSTANCE_TRIES
                         then (Inl (Error ''Unable to get browser page''), calls')
                         else acquire get rep k' calls'))))"
  by pat_completeness auto
termination
  by (relation "measure (\<lambda>(get, rep, k, calls). BROWSER_INSTANCE_TRIES - k)") auto

declare acquire.simps [simp del]

text \<open>
  The end of \<open>handle\<close>, from the line after the release: the job is removed from
  \<open>activeJobs\<close> and the result is built from \<open>errorState\<close>, which an "error" event of
  the page during the release may have written last.
\<close>

definition handle_return ::
  "js_error \<Rightarrow> 'r option \<Rightarrow> JobInstance \<Rightarrow> ('d, 'r) Job \<Rightarrow> ('d, 'r) Worker \<Rightarrow> provider_call list
     \<Rightarrow> (js_error + 'r WorkResult) \<times> ('d, 'r) Worker \<times> provider_call list" where
  "handle_return errorState1 result ji job w calls =
     (let errorState2 = foldl (\<lambda>_ e. e) errorState1 (page_errors_release ji);
          w2 = w\<lparr>activeJobs := splice1 (indexOf job (activeJobs w)) (activeJobs w)\<rparr>
      in if truthy errorState2
         then (Inr (WorkError errorState2), w2, calls)
         else (Inr (WorkData result), w2, calls))"

text \<open>
  The release: \<open>jobInstance.close()\<close> in a \<open>try\<close>. Its \<open>catch\<close> builds the debug
  message from \<open>e.message\<close> (a TypeError for \<open>null\<close> or \<open>undefined\<close>) and then awaits
  \<open>repair()\<close>, outside any \<open>try\<close>: when that rejects, \<open>handle\<close> rejects with it and
  the job stays in \<open>activeJobs\<close>. \<open>k\<close> is the number of earlier calls of \<open>repair\<close>.
\<close>

definition handle_release ::
  "js_error \<Rightarrow> 'r option \<Rightarrow> JobInstance \<Rightarrow> nat \<Rightarrow> ('d, 'r) Job \<Rightarrow> ('d, 'r) Worker
     \<Rightarrow> provider_call list
     \<Rightarrow> (js_error + 'r WorkResult) \<times> ('d, 'r) Worker \<times> provider_call list" where
  "handle_release errorState1 result ji k job w calls =
     (case close_result ji of
        None \<Rightarrow> handle_return errorState1 result ji job w (calls @ [CallClose])
      | Some e \<Rightarrow>
          (if e = Nullish then (Inl TypeError, w, calls @ [CallClose])
           else
             (case repair (browser w) k of
                Some repair_err \<Rightarrow> (Inl repair_err, w, calls @ [CallClose, CallRepair])
              | None \<Rightarrow>
                  handle_return errorState1 result ji job w (calls @ [CallClose, CallRepair]))))"

text \<open>
  \<open>Worker.handle\<close>. The result is \<open>Inl\<close> when the call throws (the promise rejects) and
  \<open>Inr\<close> when it returns a \<open>WorkResult\<close>, together with the worker when the call ends
  and the provider calls in order. \<open>others\<close> is what other calls of \<open>handle\<close> on the
  same worker do to \<open>activeJobs\<close> while this call is suspended; the call itself touches
  \<open>activeJobs\<close> only at its first line and after the release, so it does not matter at
  which of its awaits they happen. \<open>errorState\<close> starts as \<open>null\<close> and is written by
  the page's "error" listener and by the \<open>catch\<close> around the task, which then builds
  the log message from \<open>err.message\<close>. Every awaited promise is taken to settle.
\<close>

definition handle ::
  "('d, 'r) TaskFunction \<Rightarrow> ('d, 'r) Job \<Rightarrow> int \<Rightarrow> ('d, 'r) activity list \<Rightarrow> ('d, 'r) Worker
     \<Rightarrow> (js_error + 'r WorkResult) \<times> ('d, 'r) Worker \<times> provider_call list" where
  "handle task job ms others w =
     (let w1 = w\<lparr>activeJobs := activeJobs w @ [job]\<rparr>;
          (acquired, calls1) =
             acquire (jobInstance (browser w1) (data job)) (repair (browser w1)) 0 [];
          w2 = w1\<lparr>activeJobs := others_apply others (activeJobs w1)\<rparr>
      in case acquired of
           Inl err \<Rightarrow> (Inl err, w2, calls1)
         | Inr (ji, k) \<Rightarrow>
             (let errorState0 = foldl (\<lambda>_ e. e) Nullish (page_errors_task ji)
              in case task (data job) (wid w1) ms of
                   Inr v \<Rightarrow> handle_release errorState0 (Some v) ji k job w2 (calls1 @ [CallTask])
                 | Inl err \<Rightarrow>
                     if err = Nullish then (Inl TypeError, w2, calls1 @ [CallTask])
                     else handle_release err None ji k job w2 (calls1 @ [CallTask])))"


section \<open>Queue and Job operations used by the cluster\<close>

text \<open>
  Modelled from the spec: the delay queue (Queue.ts is not part of the sources at hand).
  It is an ordered sequence of entries \<open>{item, delayUntil?}\<close>: \<open>push\<close> appends,
  \<open>remove\<close> removes the first matching entry, \<open>peek\<close> returns the first entry whose
  \<open>delayUntil\<close> is absent or not after now, and \<open>size\<close> counts every entry, delayed
  ones included.
\<close>

record 'a QueueEntry =
  item :: 'a
  delayUntil :: "int option"

type_synonym 'a Queue = "'a QueueEntry list"

definition Queue_push :: "'a \<Rightarrow> int option \<Rightarrow> 'a Queue \<Rightarrow> 'a Queue" where
  "Queue_push x d q = q @ [\<lparr>item = x, delayUntil = d\<rparr>]"

fun Queue_remove :: "'a \<Rightarrow> 'a Queue \<Rightarrow> 'a Queue" where
  "Queue_remove x [] = []"
| "Queue_remove x (e # es) = (if item e = x then es else e # Queue_remove x es)"

definition ready :: "int \<Rightarrow> 'a QueueEntry \<Rightarrow> bool" where
  "ready now e = (case delayUntil e of None \<Rightarrow> True | Some t \<Rightarrow> t \<le> now)"

definition Queue_peek :: "int \<Rightarrow> 'a Queue \<Rightarrow> 'a option" where
  "Queue_peek now q = map_option item (find (ready now) q)"

definition Queue_size :: "'a Queue \<Rightarrow> nat" where
  "Queue_size q = length q"

text \<open>
  Modelled from the spec: \<open>Job.addError\<close> (Job.ts is not part of the sources at hand)
  appends the error to \<open>job.errors\<close>.
\<close>

definition addError :: "js_error \<Rightarrow> ('d, 'r) Job \<Rightarrow> ('d, 'r) Job" where
  "addError err job = job\<lparr>errors := errors job @ [err]\<rparr>"

text \<open>
  Modelled from the spec: the \<open>Job\<close> constructor as \<open>queueJob\<close> calls it. The url and the
  domain that the job derives from its payload are passed in; a new job has no attempt
  and no error.
\<close>

definition new_Job ::
  "nat \<Rightarrow> 'd \<Rightarrow> string option \<Rightarrow> string option \<Rightarrow> ('d, 'r) TaskFunction option \<Rightarrow> nat option
     \<Rightarrow> ('d, 'r) Job" where
  "new_Job i d u dm f callbacks =
     \<lparr>jid = i, data = d, getUrl = u, getDomain = dm, taskFunction = f,
      executeCallbacks = callbacks, tries = 0, errors = []\<rparr>"

section \<open>Cluster\<close>

record ClusterOptions =
  monitor :: bool
  timeout :: int
  retryLimit :: int
  retryDelay :: int
  skipDuplicateUrls :: bool
  sameDomainDelay :: int

text \<open>
  What the cluster does to the outside is kept as a log, in order: calls of the
  resolvers handed out by \<open>idle\<close> and \<open>waitForOne\<close>, calls of a job's
  \<open>executeCallbacks\<close> (named by the promise handle), emitted events, calls of
  \<open>worker.handle\<close> (with the worker's id) and the settling of the promise such a
  call returned, and the calls \<open>close\<close> makes.
\<close>

datatype ('d, 'r) effect =
    ResolveIdle nat
  | ResolveWaitForOne nat 'd
  | ExecuteResolve nat "'r option"
  | ExecuteReject nat js_error
  | EmitTaskerror js_error 'd bool
  | EmitQueue 'd
  | CallHandle nat "('d, 'r) Job"
  | HandleSettled nat "('d, 'r) Job"
  | LaunchWorker
  | ClearInterval "nat option"
  | ClearTimeout "int option"
  | WorkersClose
  | BrowserClose
  | MonitorOutput
  | DisplayClose
  | SystemMonitorClose

text \<open>
  The fields of the class \<open>Cluster\<close>. \<open>clusterTaskFunction\<close> is \<open>this.taskFunction\<close>.
  A resolver is named by a number. \<open>workCallTimeout\<close> holds the time at which the
  pending timer set by \<open>work\<close> is due; \<open>display\<close> tells whether the Display object
  exists; interval timers are named by a handle.
\<close>

record ('d, 'r) Cluster =
  options :: ClusterOptions
  workers :: "('d, 'r) Worker list"
  allTargetCount :: nat
  jobQueue :: "('d, 'r) Job Queue"
  errorCount :: nat
  clusterTaskFunction :: "('d, 'r) TaskFunction option"
  idleResolvers :: "nat list"
  waitForOneResolvers :: "nat list"
  isClosed :: bool
  monitoringInterval :: "nat option"
  display :: bool
  duplicateCheckUrls :: "string set"
  lastDomainAccesses :: "string \<rightharpoonup> int"
  checkForWorkInterval :: "nat option"
  nextWorkCall :: int
  workCallTimeout :: "int option"
  effects :: "('d, 'r) effect list"

text \<open>
  The pool (Workers.ts) is not part of the sources at hand. What it answers to the
  awaited calls of one \<open>doWork\<close> is taken as a parameter: \<open>canHandle(job)\<close>,
  \<open>canLaunchWorker(job)\<close>, the worker that \<open>launchWorker(job)\<close> adds,
  \<open>getWorker(job)\<close> and \<open>hasFreeCapacity(peek())\<close>.
\<close>

record ('d, 'r) PoolAnswers =
  pool_canHandle :: bool
  pool_canLaunchWorker :: bool
  pool_launchWorker :: "('d, 'r) Worker"
  pool_getWorker :: "('d, 'r) Worker option"
  pool_hasFreeCapacity :: bool

text \<open>
  Modelled from the spec: \<open>isAnyJobActive\<close> and \<open>busyWorkersCount\<close> of the pool
  (Workers.ts): a worker is busy when its \<open>activeJobs\<close> is not empty.
\<close>

definition isAnyJobActive :: "('d, 'r) Worker list \<Rightarrow> bool" where
  "isAnyJobActive ws = list_ex (\<lambda>w. \<not> isIdle w) ws"

definition busyWorkersCount :: "('d, 'r) Worker list \<Rightarrow> nat" where
  "busyWorkersCount ws = length (filter (\<lambda>w. length (activeJobs w) > 0) ws)"

definition WORK_CALL_INTERVAL_LIMIT :: int where
  "WORK_CALL_INTERVAL_LIMIT = 10"

text \<open>\<open>work()\<close> at time \<open>now\<close>: sets the throttle timer unless one is pending.\<close>

definition work :: "int \<Rightarrow> ('d, 'r) Cluster \<Rightarrow> ('d, 'r) Cluster" where
  "work now c =
     (if workCallTimeout c = None
      then (let next = max (nextWorkCall c + WORK_CALL_INTERVAL_LIMIT) now
            in c\<lparr>nextWorkCall := next, workCallTimeout := Some next\<rparr>)
      else c)"

definition scheduleNextWork :: "bool \<Rightarrow> int \<Rightarrow> ('d, 'r) Cluster \<Rightarrow> ('d, 'r) Cluster" where
  "scheduleNextWork hasFreeCapacity now c = (if hasFreeCapacity then work now c else c)"

text \<open>
  The blocks of \<open>doWork\<close> before the call of \<open>worker.handle\<close>, in source order.
  \<open>isDuplicateUrl\<close> is the condition of the duplicate check
  (\<open>skipDuplicateUrls && url !== undefined && duplicateCheckUrls.has(url)\<close>).
  \<open>sameDomainDelayUntil\<close> is the check for \<open>sameDomainDelay\<close>: it yields the time
  until which the job is delayed, when it is.
  \<open>commitJob\<close> is the code from \<open>jobQueue.remove(job)\<close> to \<open>scheduleNextWork()\<close>.
  \<open>jobFunction_of\<close> picks the job's own task function or else the cluster's.
\<close>

definition isDuplicateUrl :: "('d, 'r) Cluster \<Rightarrow> string option \<Rightarrow> bool" where
  "isDuplicateUrl c url =
     (skipDuplicateUrls (options c) \<and>
      (case url of None \<Rightarrow> False | Some u \<Rightarrow> u \<in> duplicateCheckUrls c))"

definition sameDomainDelayUntil :: "int \<Rightarrow> ('d, 'r) Cluster \<Rightarrow> string option \<Rightarrow> int option" where
  "sameDomainDelayUntil now c domain =
     (if sameDomainDelay (options c) \<noteq> 0
      then (case domain of
              None \<Rightarrow> None
            | Some dm \<Rightarrow>
                (case lastDomainAccesses c dm of
                   None \<Rightarrow> None
                 | Some lastDomainAccess \<Rightarrow>
                     if lastDomainAccess + sameDomainDelay (options c) > now
                     then Some (lastDomainAccess + sameDomainDelay (options c))
                     else None))
      else None)"

definition commitJob ::
  "int \<Rightarrow> bool \<Rightarrow> ('d, 'r) Job \<Rightarrow> ('d, 'r) Cluster \<Rightarrow> ('d, 'r) Cluster" where
  "commitJob now hasFreeCapacity job c =
     (let c1 = c\<lparr>jobQueue := Queue_remove job (jobQueue c)\<rparr>;
          c2 = (if skipDuplicateUrls (options c1)
                then (case getUrl job of
                        None \<Rightarrow> c1
                      | Some u \<Rightarrow> c1\<lparr>duplicateCheckUrls := insert u (duplicateCheckUrls c1)\<rparr>)
                else c1);
          c3 = (if sameDomainDelay (options c2) \<noteq> 0
                then (case getDomain job of
                        None \<Rightarrow> c2
                      | Some dm \<Rightarrow> c2\<lparr>lastDomainAccesses := (lastDomainAccesses c2)(dm \<mapsto> now)\<rparr>)
                else c2)
      in scheduleNextWork hasFreeCapacity now c3)"

definition jobFunction_of ::
  "('d, 'r) Job \<Rightarrow> ('d, 'r) Cluster \<Rightarrow> ('d, 'r) TaskFunction option" where
  "jobFunction_of job c =
     (case taskFunction job of Some f \<Rightarrow> Some f | None \<Rightarrow> clusterTaskFunction c)"

text \<open>
  \<open>doWork\<close> up to the call of \<open>worker.handle\<close>. The outcome names the \<open>return\<close> (or
  the \<open>throw\<close>) that ends the iteration, or the worker, job and task function that
  \<open>handle\<close> is called with.
\<close>

datatype ('d, 'r) dispatched =
    QueueEmpty
  | AllDelayed
  | SkippedDuplicate "('d, 'r) Job"
  | DomainDelayed "('d, 'r) Job"
  | NoWorkerAvailable bool
  | NoWorkerFound
  | NoTaskFunction
  | Handling "('d, 'r) Worker" "('d, 'r) Job" "('d, 'r) TaskFunction"

definition doWork_dispatch ::
  "int \<Rightarrow> ('d, 'r) PoolAnswers \<Rightarrow> ('d, 'r) Cluster \<Rightarrow> ('d, 'r) dispatched \<times> ('d, 'r) Cluster" where
  "doWork_dispatch now pool c =
     (if Queue_size (jobQueue c) = 0
      then (if \<not> isAnyJobActive (workers c)
            then (QueueEmpty, c\<lparr>effects := effects c @ map ResolveIdle (idleResolvers c)\<rparr>)
            else (QueueEmpty, c))
      else case Queue_peek now (jobQueue c) of
        None \<Rightarrow> (AllDelayed, c)
      | Some job \<Rightarrow>
          if isDuplicateUrl c (getUrl job)
          then (SkippedDuplicate job, work now (c\<lparr>jobQueue := Queue_remove job (jobQueue c)\<rparr>))
          else
            case sameDomainDelayUntil now c (getDomain job) of
              Some until \<Rightarrow>
                (DomainDelayed job,
                 work now (c\<lparr>jobQueue :=
                    Queue_push job (Some until) (Queue_remove job (jobQueue c))\<rparr>))
            | None \<Rightarrow>
                if \<not> pool_canHandle pool
                then (if pool_canLaunchWorker pool
                      then (NoWorkerAvailable True,
                            work now (c\<lparr>workers := workers c @ [pool_launchWorker pool],
                                        effects := effects c @ [LaunchWorker]\<rparr>))
                      else (NoWorkerAvailable False, c))
                else
                  case pool_getWorker pool of
                    None \<Rightarrow> (NoWorkerFound, c)
                  | Some worker \<Rightarrow>
                      (let c4 = commitJob now (pool_hasFreeCapacity pool) job c
                       in case jobFunction_of job c4 of
                            None \<Rightarrow> (NoTaskFunction, c4)
                          | Some jobFunction \<Rightarrow>
                              (Handling worker job jobFunction,
                               c4\<lparr>effects := effects c4 @ [CallHandle (wid worker) job]\<rparr>)))"

text \<open>
  \<open>doWork\<close> from the point where the awaited \<open>worker.handle\<close> has settled. When
  \<open>handle\<close> threw, the \<open>catch\<close> only logs (reading \<open>err.message\<close>, a TypeError
  when the thrown value is \<open>null\<close> or \<open>undefined\<close>), \<open>result\<close> is still \<open>null\<close> and
  reading \<open>result.type\<close> throws a TypeError. Otherwise the outcome is the job as the iteration
  leaves it.
\<close>

definition doWork_result ::
  "int \<Rightarrow> ('d, 'r) Job \<Rightarrow> js_error + 'r WorkResult \<Rightarrow> ('d, 'r) Cluster
     \<Rightarrow> (js_error + ('d, 'r) Job) \<times> ('d, 'r) Cluster" where
  "doWork_result now job handled c =
     (case handled of
        Inl err \<Rightarrow> (Inl (Error ''TypeError: cannot read properties of null''), c)
      | Inr result \<Rightarrow>
          (let (job1, c1) =
                 (case result of
                    WorkError error \<Rightarrow>
                      (case executeCallbacks job of
                         Some callbacks \<Rightarrow>
                           (job, c\<lparr>effects := effects c @ [ExecuteReject callbacks error],
                                   errorCount := errorCount c + 1\<rparr>)
                       | None \<Rightarrow>
                           (let job' = addError error job;
                                jobWillRetry = (tries job' \<le> retryLimit (options c));
                                c' = c\<lparr>effects := effects c @
                                        [EmitTaskerror error (data job') jobWillRetry]\<rparr>
                            in if jobWillRetry
                               then (let delayUntil =
                                           (if retryDelay (options c') \<noteq> 0
                                            then Some (now + retryDelay (options c'))
                                            else None)
                                     in (job', c'\<lparr>jobQueue :=
                                                  Queue_push job' delayUntil (jobQueue c')\<rparr>))
                               else (job', c'\<lparr>errorCount := errorCount c' + 1\<rparr>)))
                  | WorkData d \<Rightarrow>
                      (case executeCallbacks job of
                         Some callbacks \<Rightarrow>
                           (job, c\<lparr>effects := effects c @ [ExecuteResolve callbacks d]\<rparr>)
                       | None \<Rightarrow> (job, c)));
               c2 = c1\<lparr>effects := effects c1 @
                          map (\<lambda>resolve. ResolveWaitForOne resolve (data job1))
                              (waitForOneResolvers c1),
                        waitForOneResolvers := []\<rparr>
           in (Inr job1, work now c2)))"

text \<open>
  One whole iteration of \<open>doWork\<close> when nothing else runs in between: the dispatch,
  the call of \<open>worker.handle\<close> with \<open>options.timeout\<close>, and the handling of what it
  settles to at time \<open>now'\<close>. The worker object that \<open>handle\<close> changed replaces the one
  of the same id in the pool.
\<close>

datatype ('d, 'r) doWork_end =
    Returned "('d, 'r) dispatched"
  | Completed "('d, 'r) Job"
  | Thrown js_error

definition doWork ::
  "int \<Rightarrow> ('d, 'r) PoolAnswers \<Rightarrow> int \<Rightarrow> ('d, 'r) Cluster
     \<Rightarrow> ('d, 'r) doWork_end \<times> ('d, 'r) Cluster" where
  "doWork now pool now' c =
     (case doWork_dispatch now pool c of
        (Handling worker job jobFunction, c1) \<Rightarrow>
          (let (handled, worker', calls) = handle jobFunction job (timeout (options c1)) [] worker;
               c2 = c1\<lparr>workers :=
                      map (\<lambda>w. if wid w = wid worker then worker' else w) (workers c1)\<rparr>
           in case doWork_result now' job handled c2 of
                (Inl err, c3) \<Rightarrow> (Thrown err, c3)
              | (Inr job', c3) \<Rightarrow> (Completed job', c3))
      | (NoTaskFunction, c1) \<Rightarrow> (Thrown (Error ''No task function defined!''), c1)
      | (ended, c1) \<Rightarrow> (Returned ended, c1))"

text \<open>
  \<open>queueJob\<close> for a payload that is not a function (the overload that takes only a
  task function leaves the payload undefined). \<open>i\<close> is the identity of the new job,
  \<open>u\<close> and \<open>dm\<close> the url and domain it derives from the payload. \<open>queue\<close> passes no
  callbacks; \<open>execute\<close> passes the callbacks of the promise it returns.
\<close>

definition queueJob ::
  "nat \<Rightarrow> 'd \<Rightarrow> string option \<Rightarrow> string option \<Rightarrow> ('d, 'r) TaskFunction option \<Rightarrow> nat option
     \<Rightarrow> int \<Rightarrow> ('d, 'r) Cluster \<Rightarrow> ('d, 'r) Cluster" where
  "queueJob i d u dm f callbacks now c =
     (let job = new_Job i d u dm f callbacks
      in work now (c\<lparr>allTargetCount := allTargetCount c + 1,
                      jobQueue := Queue_push job None (jobQueue c),
                      effects := effects c @ [EmitQueue d]\<rparr>))"

definition queue ::
  "nat \<Rightarrow> 'd \<Rightarrow> string option \<Rightarrow> string option \<Rightarrow> ('d, 'r) TaskFunction option
     \<Rightarrow> int \<Rightarrow> ('d, 'r) Cluster \<Rightarrow> ('d, 'r) Cluster" where
  "queue i d u dm f now c = queueJob i d u dm f None now c"

definition execute ::
  "nat \<Rightarrow> nat \<Rightarrow> 'd \<Rightarrow> string option \<Rightarrow> string option \<Rightarrow> ('d, 'r) TaskFunction option
     \<Rightarrow> int \<Rightarrow> ('d, 'r) Cluster \<Rightarrow> ('d, 'r) Cluster" where
  "execute promise i d u dm f now c = queueJob i d u dm f (Some promise) now c"

definition idle :: "nat \<Rightarrow> ('d, 'r) Cluster \<Rightarrow> ('d, 'r) Cluster" where
  "idle resolve c = c\<lparr>idleResolvers := idleResolvers c @ [resolve]\<rparr>"

definition waitForOne :: "nat \<Rightarrow> ('d, 'r) Cluster \<Rightarrow> ('d, 'r) Cluster" where
  "waitForOne resolve c = c\<lparr>waitForOneResolvers := waitForOneResolvers c @ [resolve]\<rparr>"

text \<open>
  \<open>monitor()\<close> creates the display on first use and writes to it.
  \<open>close()\<close>: the argument is what the awaited \<open>browser.close()\<close> settles to; a
  rejection is caught and only logged. \<open>clearInterval\<close> and \<open>clearTimeout\<close> cancel the
  timers; the fields that hold them are not reset.
\<close>

definition monitor_tick :: "('d, 'r) Cluster \<Rightarrow> ('d, 'r) Cluster" where
  "monitor_tick c = c\<lparr>display := True, effects := effects c @ [MonitorOutput]\<rparr>"

definition close :: "js_error option \<Rightarrow> ('d, 'r) Cluster \<Rightarrow> ('d, 'r) Cluster" where
  "close browser_close c =
     (let c1 = c\<lparr>isClosed := True\<rparr>;
          c2 = c1\<lparr>effects := effects c1 @
                  [ClearInterval (checkForWorkInterval c1), ClearTimeout (workCallTimeout c1),
                   WorkersClose, BrowserClose]\<rparr>;
          c3 = (if monitoringInterval c2 \<noteq> None
                then (let m = monitor_tick c2
                      in m\<lparr>effects := effects m @ [ClearInterval (monitoringInterval m)]\<rparr>)
                else c2);
          c4 = (if display c3 then c3\<lparr>effects := effects c3 @ [DisplayClose]\<rparr> else c3)
      in c4\<lparr>effects := effects c4 @ [SystemMonitorClose]\<rparr>)"

text \<open>
  \<open>DEFAULT_OPTIONS\<close>, and the cluster as \<open>launch\<close> returns it: the fields as the class
  initialises them, the monitoring interval set by the constructor when
  \<open>options.monitor\<close> holds, and the poll interval set by \<open>init\<close>.
\<close>

definition DEFAULT_OPTIONS :: ClusterOptions where
  "DEFAULT_OPTIONS = \<lparr>monitor = False, timeout = 30 * 1000, retryLimit = 0, retryDelay = 0,
     skipDuplicateUrls = False, sameDomainDelay = 0\<rparr>"

definition launch :: "ClusterOptions \<Rightarrow> ('d, 'r) Cluster" where
  "launch opts =
     \<lparr>options = opts, workers = [], allTargetCount = 0, jobQueue = [], errorCount = 0,
      clusterTaskFunction = None, idleResolvers = [], waitForOneResolvers = [],
      isClosed = False, monitoringInterval = (if monitor opts then Some 0 else None),
      display = False, duplicateCheckUrls = {}, lastDomainAccesses = Map.empty,
      checkForWorkInterval = Some 1, nextWorkCall = 0, workCallTimeout = None,
      effects = []\<rparr>"

definition task :: "('d, 'r) TaskFunction \<Rightarrow> ('d, 'r) Cluster \<Rightarrow> ('d, 'r) Cluster" where
  "task f c = c\<lparr>clusterTaskFunction := Some f\<rparr>"

subsection \<open>Executions\<close>

text \<open>
  Modelled from the spec: the pool's list of workers (Workers.ts is not part of the
  sources at hand), as far as the cluster's calls determine it. \<open>worker.handle\<close>
  pushes the job onto the worker's \<open>activeJobs\<close> at the call and removes it before it
  returns; a worker that \<open>getWorker\<close> answers with and that the list does not hold yet
  joins it. A call of \<open>handle\<close> is in flight while the log holds more calls of it than
  settlements.
\<close>

definition begin_handle ::
  "('d, 'r) Worker \<Rightarrow> ('d, 'r) Job \<Rightarrow> ('d, 'r) Worker list \<Rightarrow> ('d, 'r) Worker list" where
  "begin_handle worker job ws =
     (if list_ex (\<lambda>w. wid w = wid worker) ws
      then map (\<lambda>w. if wid w = wid worker then w\<lparr>activeJobs := activeJobs w @ [job]\<rparr> else w) ws
      else ws @ [worker\<lparr>activeJobs := activeJobs worker @ [job]\<rparr>])"

definition end_handle ::
  "nat \<Rightarrow> ('d, 'r) Job \<Rightarrow> ('d, 'r) Worker list \<Rightarrow> ('d, 'r) Worker list" where
  "end_handle i job ws =
     map (\<lambda>w. if wid w = i
               then w\<lparr>activeJobs := splice1 (indexOf job (activeJobs w)) (activeJobs w)\<rparr>
               else w) ws"

definition in_flight :: "nat \<Rightarrow> ('d, 'r) Job \<Rightarrow> ('d, 'r) effect list \<Rightarrow> bool" where
  "in_flight i job es =
     (length (filter (\<lambda>e. e = HandleSettled i job) es) <
      length (filter (\<lambda>e. e = CallHandle i job) es))"

text \<open>
  An execution is a sequence of events, each one a piece of cluster code that runs
  without another one in between: a call of the cluster's interface (\<open>queue\<close>,
  \<open>execute\<close>, \<open>task\<close>, \<open>idle\<close>, \<open>waitForOne\<close>, \<open>close\<close>), a tick of the poll
  interval (\<open>work()\<close>), the throttle timer firing (it resets \<open>workCallTimeout\<close> and
  runs \<open>doWork\<close> up to and including the call of \<open>handle\<close>, which pushes the job onto
  the worker's \<open>activeJobs\<close>; the pool answers as given), and the \<open>handle\<close> call of a
  worker and a job settling, after which its \<open>doWork\<close> goes on. A call settles only
  while it is in flight; it may then settle with any outcome, a returned result taking
  the job out of the worker's \<open>activeJobs\<close> and a throw leaving it there. This covers
  every order in which the workers finish.
\<close>

datatype ('d, 'r) event =
    Call_queue nat 'd "string option" "string option" "('d, 'r) TaskFunction option" int
  | Call_execute nat nat 'd "string option" "string option" "('d, 'r) TaskFunction option" int
  | Call_task "('d, 'r) TaskFunction"
  | Call_idle nat
  | Call_waitForOne nat
  | Call_close "js_error option"
  | Poll int
  | Timer int "('d, 'r) PoolAnswers"
  | Settled int nat "('d, 'r) Job" "js_error + 'r WorkResult"

fun step :: "('d, 'r) event \<Rightarrow> ('d, 'r) Cluster \<Rightarrow> ('d, 'r) Cluster" where
  "step (Call_queue i d u dm f now) c = queue i d u dm f now c"
| "step (Call_execute promise i d u dm f now) c = execute promise i d u dm f now c"
| "step (Call_task f) c = task f c"
| "step (Call_idle resolve) c = idle resolve c"
| "step (Call_waitForOne resolve) c = waitForOne resolve c"
| "step (Call_close browser_close) c = close browser_close c"
| "step (Poll now) c = work now c"
| "step (Timer now pool) c =
     (case doWork_dispatch now pool (c\<lparr>workCallTimeout := None\<rparr>) of
        (Handling worker job jobFunction, c') \<Rightarrow>
          c'\<lparr>workers := begin_handle worker job (workers c')\<rparr>
      | (ended, c') \<Rightarrow> c')"
| "step (Settled now i job handled) c =
     (if in_flight i job (effects c)
      then snd (doWork_result now job handled
             (c\<lparr>workers := (case handled of
                               Inr result \<Rightarrow> end_handle i job (workers c)
                             | Inl err \<Rightarrow> workers c),
                effects := effects c @ [HandleSettled i job]\<rparr>))
      else c)"

fun run :: "('d, 'r) event list \<Rightarrow> ('d, 'r) Cluster \<Rightarrow> ('d, 'r) Cluster" where
  "run [] c = c"
| "run (e # es) c = run es (step e c)"

text \<open>The urls of the jobs that \<open>worker.handle\<close> was called with, in order.\<close>

definition handled_urls :: "('d, 'r) effect list \<Rightarrow> string list" where
  "handled_urls es =
     concat (map (\<lambda>e. case e of
                         CallHandle w job \<Rightarrow> (case getUrl job of Some u \<Rightarrow> [u] | None \<Rightarrow> [])
                       | _ \<Rightarrow> []) es)"

text \<open>The calls of the execute callbacks of promise \<open>p\<close>, in order.\<close>

definition callback_calls :: "nat \<Rightarrow> ('d, 'r) effect list \<Rightarrow> ('d, 'r) effect list" where
  "callback_calls p es =
     filter (\<lambda>e. case e of
                    ExecuteResolve q d \<Rightarrow> q = p
                  | ExecuteReject q err \<Rightarrow> q = p
                  | _ \<Rightarrow> False) es"

section \<open>Concrete inputs\<close>

text \<open>
  Jobs, tasks, providers and pool answers at which the theorems below are evaluated.
  \<open>double_task\<close> returns twice its payload. \<open>broken_browser\<close> never yields a job
  instance; \<open>flaky_browser\<close> fails nine times and then yields an instance whose
  \<open>close()\<close> rejects; \<open>refusing_browser\<close> defines \<open>canHandle\<close> and refuses every
  payload; \<open>shared_browser\<close> accepts every payload, as a provider that shares one page
  source among several jobs does. These four repair without error.
  \<open>unrepairable_browser\<close> yields an instance whose \<open>close()\<close> rejects and cannot be
  repaired; \<open>crashing_browser\<close> yields an instance whose \<open>close()\<close> rejects and whose
  page reports an error during the release.
\<close>

definition example_job :: "nat \<Rightarrow> nat \<Rightarrow> (nat, nat) Job" where
  "example_job i d = new_Job i d None None None None"

definition double_task :: "(nat, nat) TaskFunction" where
  "double_task d i ms = Inr (2 * d)"

definition clean_instance :: JobInstance where
  "clean_instance = \<lparr>page_errors_task = [], page_errors_release = [], close_result = None\<rparr>"

definition stuck_instance :: JobInstance where
  "stuck_instance = \<lparr>page_errors_task = [], page_errors_release = [],
     close_result = Some (Error ''close failed'')\<rparr>"

definition broken_browser :: "nat WorkerInstance" where
  "broken_browser = \<lparr>canHandle = None, jobInstance = (\<lambda>d k. Inl (Error ''no page'')),
     repair = (\<lambda>k. None)\<rparr>"

definition flaky_browser :: "nat WorkerInstance" where
  "flaky_browser = \<lparr>canHandle = None,
     jobInstance = (\<lambda>d k. if k < 9 then Inl (Error ''no page'') else Inr stuck_instance),
     repair = (\<lambda>k. None)\<rparr>"

definition refusing_browser :: "nat WorkerInstance" where
  "refusing_browser = \<lparr>canHandle = Some (\<lambda>d. False), jobInstance = (\<lambda>d k. Inr clean_instance),
     repair = (\<lambda>k. None)\<rparr>"

definition shared_browser :: "nat WorkerInstance" where
  "shared_browser = \<lparr>canHandle = Some (\<lambda>d. True), jobInstance = (\<lambda>d k. Inr clean_instance),
     repair = (\<lambda>k. None)\<rparr>"

definition unrepairable_browser :: "nat WorkerInstance" where
  "unrepairable_browser = \<lparr>canHandle = None, jobInstance = (\<lambda>d k. Inr stuck_instance),
     repair = (\<lambda>k. Some (Error ''repair failed''))\<rparr>"

definition crashing_instance :: JobInstance where
  "crashing_instance = \<lparr>page_errors_task = [],
     page_errors_release = [Error ''page crashed''],
     close_result = Some (Error ''close failed'')\<rparr>"

definition crashing_browser :: "nat WorkerInstance" where
  "crashing_browser = \<lparr>canHandle = None, jobInstance = (\<lambda>d k. Inr crashing_instance),
     repair = (\<lambda>k. None)\<rparr>"

definition example_worker :: "nat WorkerInstance \<Rightarrow> (nat, nat) Job list \<Rightarrow> (nat, nat) Worker" where
  "example_worker b js = \<lparr>wid = 0, browser = b, activeJobs = js\<rparr>"

text \<open>
  The same provider with job instances whose \<open>close()\<close> resolves: what a run is
  compared with when the release fails.
\<close>

definition closing_ok :: "'d WorkerInstance \<Rightarrow> 'd WorkerInstance" where
  "closing_ok b =
     b\<lparr>jobInstance := (\<lambda>d k. map_sum id (\<lambda>ji. ji\<lparr>close_result := None\<rparr>) (jobInstance b d k))\<rparr>"

definition skip_options :: ClusterOptions where
  "skip_options = DEFAULT_OPTIONS\<lparr>skipDuplicateUrls := True\<rparr>"

definition retry_options :: ClusterOptions where
  "retry_options = DEFAULT_OPTIONS\<lparr>retryLimit := 5, retryDelay := 50\<rparr>"

definition free_pool :: "(nat, nat) Worker \<Rightarrow> (nat, nat) PoolAnswers" where
  "free_pool w = \<lparr>pool_canHandle = True, pool_canLaunchWorker = False, pool_launchWorker = w,
     pool_getWorker = Some w, pool_hasFreeCapacity = False\<rparr>"

text \<open>
  An execution with \<open>skipDuplicateUrls\<close>: a job for the url \<open>https://a\<close> is queued and
  handed to a worker, then \<open>execute\<close> (promise 5) enqueues a second job for the same
  url, and the next \<open>doWork\<close> runs.
\<close>

definition duplicate_events :: "(nat, nat) event list" where
  "duplicate_events =
     [Call_queue 1 0 (Some ''https://a'') (Some ''a'') (Some double_task) 0,
      Timer 10 (free_pool (example_worker shared_browser [])),
      Call_execute 5 2 0 (Some ''https://a'') (Some ''a'') (Some double_task) 20,
      Timer 30 (free_pool (example_worker shared_browser []))]"

text \<open>A cluster that has just been launched and on which \<open>idle()\<close> was called once.\<close>

definition waiting_cluster :: "(nat, nat) Cluster" where
  "waiting_cluster = idle 7 (launch DEFAULT_OPTIONS)"

section \<open>Worker: the acquisition loop and the removal from activeJobs\<close>

lemma acquire_all_fail:
  "k < BROWSER_INSTANCE_TRIES \<Longrightarrow>
   \<forall>i. k \<le> i \<and> i < BROWSER_INSTANCE_TRIES \<longrightarrow>
       (\<exists>e. get i = Inl e \<and> e \<noteq> Nullish) \<and> rep i = None \<Longrightarrow>
   acquire get rep k calls =
     (Inl (Error ''Unable to get browser page''),
      calls @ concat (replicate (BROWSER_INSTANCE_TRIES - k) [CallJobInstance, CallRepair]))"
proof (induction get rep k calls rule: acquire.induct)
  case (1 get rep k calls)
  from 1(2,3) obtain err where e: "get k = Inl err" "err \<noteq> Nullish" and r: "rep k = None"
    by auto
  show ?case
  proof (cases "k + 1 \<ge> BROWSER_INSTANCE_TRIES")
    case True
    with 1(2) have "BROWSER_INSTANCE_TRIES - k = 1" by simp
    with True e r show ?thesis by (subst acquire.simps) simp
  next
    case False
    then have lt: "k + 1 < BROWSER_INSTANCE_TRIES" by simp
    have ih: "acquire get rep (k + 1) (calls @ [CallJobInstance, CallRepair]) =
       (Inl (Error ''Unable to get browser page''),
        (calls @ [CallJobInstance, CallRepair]) @
          concat (replicate (BROWSER_INSTANCE_TRIES - (k + 1)) [CallJobInstance, CallRepair]))"
      using 1(1)[OF e(1) e(2) refl r refl False lt] 1(3) by simp
    have "BROWSER_INSTANCE_TRIES - k = Suc (BROWSER_INSTANCE_TRIES - (k + 1))" using lt by simp
    then show ?thesis using e r False ih by (subst acquire.simps) simp
  qed
qed

lemma acquire_first_ok:
  "get i = Inr ji \<Longrightarrow> k \<le> i \<Longrightarrow> i < BROWSER_INSTANCE_TRIES \<Longrightarrow>
   \<forall>m. k \<le> m \<and> m < i \<longrightarrow> (\<exists>e. get m = Inl e \<and> e \<noteq> Nullish) \<and> rep m = None \<Longrightarrow>
   acquire get rep k calls =
     (Inr (ji, i),
      calls @ concat (replicate (i - k) [CallJobInstance, CallRepair]) @ [CallJobInstance])"
proof (induction get rep k calls rule: acquire.induct)
  case (1 get rep k calls)
  show ?case
  proof (cases "k = i")
    case True
    with 1(2) show ?thesis by (subst acquire.simps) simp
  next
    case False
    with 1(3) have lt: "k < i" by simp
    with 1(5) obtain err where e: "get k = Inl err" "err \<noteq> Nullish" and r: "rep k = None"
      by auto
    from lt 1(4) have nb: "\<not> k + 1 \<ge> BROWSER_INSTANCE_TRIES" by simp
    have ih: "acquire get rep (k + 1) (calls @ [CallJobInstance, CallRepair]) =
       (Inr (ji, i), (calls @ [CallJobInstance, CallRepair]) @
          concat (replicate (i - (k + 1)) [CallJobInstance, CallRepair]) @ [CallJobInstance])"
      using 1(1)[OF e(1) e(2) refl r refl nb 1(2) _ 1(4)] lt 1(5) by simp
    have "i - k = Suc (i - (k + 1))" using lt by simp
    then show ?thesis using e r nb ih by (subst acquire.simps) simp
  qed
qed

lemma indexOf_from_remove1:
  "x \<in> set xs \<Longrightarrow>
   \<exists>n. indexOf_from i x xs = i + int n \<and> n < length xs \<and>
       take n xs @ drop (Suc n) xs = remove1 x xs"
proof (induction xs arbitrary: i)
  case Nil
  then show ?case by simp
next
  case (Cons y ys)
  show ?case
  proof (cases "y = x")
    case True
    then have "indexOf_from i x (y # ys) = i + int 0 \<and> 0 < length (y # ys) \<and>
       take 0 (y # ys) @ drop (Suc 0) (y # ys) = remove1 x (y # ys)" by simp
    then show ?thesis by blast
  next
    case False
    with Cons.prems have "x \<in> set ys" by simp
    from Cons.IH[OF this, of "i + 1"] obtain n where
      n: "indexOf_from (i + 1) x ys = i + 1 + int n" "n < length ys"
         "take n ys @ drop (Suc n) ys = remove1 x ys" by blast
    have "indexOf_from i x (y # ys) = i + int (Suc n) \<and> Suc n < length (y # ys) \<and>
       take (Suc n) (y # ys) @ drop (Suc (Suc n)) (y # ys) = remove1 x (y # ys)"
      using False n by simp
    then show ?thesis by blast
  qed
qed

lemma splice1_indexOf: "x \<in> set xs \<Longrightarrow> splice1 (indexOf x xs) xs = remove1 x xs"
proof -
  assume "x \<in> set xs"
  from indexOf_from_remove1[OF this, of 0] obtain n where
    n: "indexOf_from 0 x xs = int n" "n < length xs"
       "take n xs @ drop (Suc n) xs = remove1 x xs" by auto
  have "splice1 (int n) xs = take n xs @ drop (Suc n) xs"
    using n(2) by (simp add: splice1_def Let_def)
  with n show ?thesis by (simp add: indexOf_def)
qed

lemma handle_not_acquired:
  assumes "acquire (jobInstance (browser w) (data job)) (repair (browser w)) 0 [] = (Inl err, cs)"
  shows "handle f job ms others w =
           (Inl err, w\<lparr>activeJobs := others_apply others (activeJobs w @ [job])\<rparr>, cs)"
  using assms by (simp add: handle_def)

lemma handle_acquired:
  assumes "acquire (jobInstance (browser w) (data job)) (repair (browser w)) 0 [] =
             (Inr (ji, k), cs)"
  shows "handle f job ms others w =
     (case f (data job) (wid w) ms of
        Inr v \<Rightarrow>
          handle_release (foldl (\<lambda>_ e. e) Nullish (page_errors_task ji)) (Some v) ji k job
            (w\<lparr>activeJobs := others_apply others (activeJobs w @ [job])\<rparr>) (cs @ [CallTask])
      | Inl err \<Rightarrow>
          if err = Nullish
          then (Inl TypeError, w\<lparr>activeJobs := others_apply others (activeJobs w @ [job])\<rparr>,
                cs @ [CallTask])
          else handle_release err None ji k job
                 (w\<lparr>activeJobs := others_apply others (activeJobs w @ [job])\<rparr>)
                 (cs @ [CallTask]))"
  using assms by (simp add: handle_def Let_def split: sum.splits)

lemma handle_throws:
  assumes "\<forall>k<BROWSER_INSTANCE_TRIES.
      (\<exists>e. jobInstance (browser w) (data job) k = Inl e \<and> e \<noteq> Nullish) \<and>
      repair (browser w) k = None"
  shows "handle f job ms others w =
     (Inl (Error ''Unable to get browser page''),
      w\<lparr>activeJobs := others_apply others (activeJobs w @ [job])\<rparr>,
      concat (replicate BROWSER_INSTANCE_TRIES [CallJobInstance, CallRepair]))"
proof -
  have "acquire (jobInstance (browser w) (data job)) (repair (browser w)) 0 [] =
     (Inl (Error ''Unable to get browser page''),
      [] @ concat (replicate (BROWSER_INSTANCE_TRIES - 0) [CallJobInstance, CallRepair]))"
    using assms by (intro acquire_all_fail) (simp_all add: BROWSER_INSTANCE_TRIES_def)
  then show ?thesis using handle_not_acquired by simp
qed

lemma handle_release_returns:
  assumes "close_result ji = None \<or>
           (\<exists>e. close_result ji = Some e \<and> e \<noteq> Nullish \<and> repair (browser w) k = None)"
  shows "\<exists>r w' calls'. handle_release es result ji k job w calls = (Inr r, w', calls') \<and>
           ((\<exists>e. r = WorkError e \<and> truthy e) \<or> (\<exists>d. r = WorkData d))"
  using assms by (auto simp: handle_release_def handle_return_def Let_def)

lemma handle_returned_worker:
  assumes "fst (handle f job ms others w) = Inr r"
  shows "fst (snd (handle f job ms others w)) =
     w\<lparr>activeJobs := splice1 (indexOf job (others_apply others (activeJobs w @ [job])))
                        (others_apply others (activeJobs w @ [job]))\<rparr>"
proof -
  obtain a cs where acq:
    "acquire (jobInstance (browser w) (data job)) (repair (browser w)) 0 [] = (a, cs)"
    by (cases "acquire (jobInstance (browser w) (data job)) (repair (browser w)) 0 []") auto
  show ?thesis
  proof (cases a)
    case (Inl err)
    with acq assms handle_not_acquired[of w job err cs f ms others] show ?thesis by simp
  next
    case (Inr p)
    obtain ji k where p: "p = (ji, k)" by (cases p) auto
    with Inr acq have "acquire (jobInstance (browser w) (data job)) (repair (browser w)) 0 [] =
        (Inr (ji, k), cs)" by simp
    from handle_acquired[OF this, of f ms others] assms show ?thesis
      by (auto simp: handle_release_def handle_return_def Let_def
               split: sum.splits option.splits if_splits)
  qed
qed

lemma others_commute:
  assumes "j \<in> set xs" and "j \<notin> set (map activity_job others)"
    and "others_ok (remove1 j xs) others"
  shows "j \<in> set (others_apply others xs) \<and>
         remove1 j (others_apply others xs) = others_apply others (remove1 j xs)"
  using assms
proof (induction others arbitrary: xs)
  case Nil
  then show ?case by simp
next
  case (Cons a as)
  show ?case
  proof (cases a)
    case (Pushed k)
    with Cons.prems have "j \<in> set (xs @ [k])" "j \<notin> set (map activity_job as)"
      "others_ok (remove1 j (xs @ [k])) as"
      by (simp_all add: remove1_append)
    from Cons.IH[OF this] Pushed Cons.prems(1) show ?thesis
      by (simp add: remove1_append)
  next
    case (Spliced k)
    with Cons.prems have kj: "k \<noteq> j" and kin: "k \<in> set (remove1 j xs)"
      and ok: "others_ok (splice1 (indexOf k (remove1 j xs)) (remove1 j xs)) as"
      and nj: "j \<notin> set (map activity_job as)"
      by auto
    from kin have kx: "k \<in> set xs"
      using set_remove1_subset[of j xs] by blast
    have sx: "splice1 (indexOf k xs) xs = remove1 k xs"
      using kx by (rule splice1_indexOf)
    have sr: "splice1 (indexOf k (remove1 j xs)) (remove1 j xs) = remove1 k (remove1 j xs)"
      using kin by (rule splice1_indexOf)
    have c: "remove1 j (remove1 k xs) = remove1 k (remove1 j xs)"
      by (rule remove1_commute)
    have jin: "j \<in> set (remove1 k xs)"
      using Cons.prems(1) kj by simp
    from ok sr c have ok': "others_ok (remove1 j (remove1 k xs)) as" by simp
    from Cons.IH[OF jin nj ok'] Spliced sx sr c show ?thesis by simp
  qed
qed

lemma acquire_map:
  "acquire (\<lambda>k. map_sum id g (get k)) rep k calls =
     (map_sum id (map_prod g id) (fst (acquire get rep k calls)), snd (acquire get rep k calls))"
proof (induction get rep k calls rule: acquire.induct)
  case (1 get rep k calls)
  show ?case
  proof (cases "get k")
    case (Inr ji)
    then show ?thesis
      by (subst acquire.simps, subst (2) acquire.simps, subst (3) acquire.simps) simp
  next
    case (Inl err)
    show ?thesis
    proof (cases "err = Nullish \<or> rep k \<noteq> None \<or> k + 1 \<ge> BROWSER_INSTANCE_TRIES")
      case True
      with Inl show ?thesis
        by (subst acquire.simps, subst (2) acquire.simps, subst (3) acquire.simps)
           (auto simp: Let_def split: option.splits)
    next
      case False
      then have n: "err \<noteq> Nullish" and r: "rep k = None"
        and b: "\<not> k + 1 \<ge> BROWSER_INSTANCE_TRIES" by auto
      from 1[OF Inl n refl r refl b] Inl n r b show ?thesis
        by (subst acquire.simps, subst (2) acquire.simps, subst (3) acquire.simps)
           (simp add: id_def)
    qed
  qed
qed

lemma closing_ok_acquire:
  "acquire (jobInstance (closing_ok b) d) (repair (closing_ok b)) 0 [] =
     (map_sum id (map_prod (\<lambda>ji. ji\<lparr>close_result := None\<rparr>) id)
        (fst (acquire (jobInstance b d) (repair b) 0 [])),
      snd (acquire (jobInstance b d) (repair b) 0 []))"
  using acquire_map[of "\<lambda>ji. ji\<lparr>close_result := None\<rparr>" "jobInstance b d" "repair b" 0 "[]"]
  by (simp add: closing_ok_def)

text \<open>
  C1 (as amended). \<open>Worker.handle\<close> either returns a \<open>WorkResult\<close>, which is
  \<open>{type: "success", data}\<close> or \<open>{type: "error", error}\<close>, or throws. When
  \<open>provider.jobInstance\<close> fails on all of the \<open>BROWSER_INSTANCE_TRIES = 10\<close>
  attempts, \<open>provider.repair\<close> being called after each failure and resolving,
  \<open>handle\<close> throws the error "Unable to get browser page" instead of returning an
  error result. It returns a \<open>WorkResult\<close> when one of the first ten attempts
  succeeds, the repairs after the failures before it having resolved, and the release
  either succeeds or fails and is followed by a repair that resolves; here no
  rejection met on the way (of \<open>jobInstance\<close>, of the task, of \<open>close\<close>) is \<open>null\<close> or
  \<open>undefined\<close>. An error result carries a truthy error.
\<close>

theorem handle_returns_or_throws:
  "((\<forall>k<BROWSER_INSTANCE_TRIES.
        (\<exists>e. jobInstance (browser w) (data job) k = Inl e \<and> e \<noteq> Nullish) \<and>
        repair (browser w) k = None) \<longrightarrow>
      fst (handle f job ms others w) = Inl (Error ''Unable to get browser page'') \<and>
      snd (snd (handle f job ms others w)) =
        concat (replicate BROWSER_INSTANCE_TRIES [CallJobInstance, CallRepair])) \<and>
   (\<forall>i ji.
      i < BROWSER_INSTANCE_TRIES \<and> jobInstance (browser w) (data job) i = Inr ji \<and>
      (\<forall>k<i. (\<exists>e. jobInstance (browser w) (data job) k = Inl e \<and> e \<noteq> Nullish) \<and>
              repair (browser w) k = None) \<and>
      f (data job) (wid w) ms \<noteq> Inl Nullish \<and>
      (close_result ji = None \<or>
       (\<exists>e. close_result ji = Some e \<and> e \<noteq> Nullish \<and> repair (browser w) i = None)) \<longrightarrow>
      (\<exists>r. fst (handle f job ms others w) = Inr r \<and>
            ((\<exists>e. r = WorkError e \<and> truthy e) \<or> (\<exists>d. r = WorkData d))))"
proof (intro conjI impI allI)
  assume "\<forall>k<BROWSER_INSTANCE_TRIES.
        (\<exists>e. jobInstance (browser w) (data job) k = Inl e \<and> e \<noteq> Nullish) \<and>
        repair (browser w) k = None"
  from handle_throws[OF this, of f ms others]
  show "fst (handle f job ms others w) = Inl (Error ''Unable to get browser page'')"
    and "snd (snd (handle f job ms others w)) =
        concat (replicate BROWSER_INSTANCE_TRIES [CallJobInstance, CallRepair])"
    by simp_all
next
  fix i ji
  assume h: "i < BROWSER_INSTANCE_TRIES \<and> jobInstance (browser w) (data job) i = Inr ji \<and>
      (\<forall>k<i. (\<exists>e. jobInstance (browser w) (data job) k = Inl e \<and> e \<noteq> Nullish) \<and>
              repair (browser w) k = None) \<and>
      f (data job) (wid w) ms \<noteq> Inl Nullish \<and>
      (close_result ji = None \<or>
       (\<exists>e. close_result ji = Some e \<and> e \<noteq> Nullish \<and> repair (browser w) i = None))"
  let ?w2 = "w\<lparr>activeJobs := others_apply others (activeJobs w @ [job])\<rparr>"
  have acq: "acquire (jobInstance (browser w) (data job)) (repair (browser w)) 0 [] =
      (Inr (ji, i), [] @ concat (replicate (i - 0) [CallJobInstance, CallRepair]) @
         [CallJobInstance])"
    using h by (intro acquire_first_ok) auto
  have rel: "close_result ji = None \<or>
       (\<exists>e. close_result ji = Some e \<and> e \<noteq> Nullish \<and> repair (browser ?w2) i = None)"
    using h by simp
  note hr = handle_release_returns[OF rel]
  show "\<exists>r. fst (handle f job ms others w) = Inr r \<and>
            ((\<exists>e. r = WorkError e \<and> truthy e) \<or> (\<exists>d. r = WorkData d))"
  proof (cases "f (data job) (wid w) ms")
    case (Inr v)
    from hr[of "foldl (\<lambda>_ e. e) Nullish (page_errors_task ji)" "Some v" job
        "([] @ concat (replicate (i - 0) [CallJobInstance, CallRepair]) @ [CallJobInstance]) @
           [CallTask]"]
      handle_acquired[OF acq, of f ms others] Inr
    show ?thesis by auto
  next
    case (Inl err)
    with h have "err \<noteq> Nullish" by auto
    with hr[of err None job
        "([] @ concat (replicate (i - 0) [CallJobInstance, CallRepair]) @ [CallJobInstance]) @
           [CallTask]"]
      handle_acquired[OF acq, of f ms others] Inl
    show ?thesis by auto
  qed
qed

text \<open>
  C1 as stated fails: with a provider whose \<open>jobInstance\<close> always fails, \<open>handle\<close>
  does not return an error result but throws.
\<close>

theorem handle_throws_counterexample:
  "fst (handle double_task (example_job 1 21) 30000 [] (example_worker broken_browser [])) =
     Inl (Error ''Unable to get browser page'')"
  by (simp add: handle_def broken_browser_def example_worker_def example_job_def new_Job_def
      acquire.simps BROWSER_INSTANCE_TRIES_def)

text \<open>
  Both cases of C1 (as amended) occur: a provider that never yields an instance, and one
  that fails nine times and then yields an instance whose \<open>close()\<close> rejects.
\<close>

theorem handle_returns_or_throws_witness:
  "fst (handle double_task (example_job 1 21) 30000 [] (example_worker broken_browser [])) =
     Inl (Error ''Unable to get browser page'') \<and>
   snd (snd (handle double_task (example_job 1 21) 30000 [] (example_worker broken_browser []))) =
     concat (replicate BROWSER_INSTANCE_TRIES [CallJobInstance, CallRepair]) \<and>
   jobInstance flaky_browser 21 9 = Inr stuck_instance \<and>
   close_result stuck_instance = Some (Error ''close failed'') \<and>
   (\<exists>r. fst (handle double_task (example_job 1 21) 30000 [] (example_worker flaky_browser [])) =
       Inr r)"
proof -
  let ?wb = "example_worker broken_browser []"
  let ?wf = "example_worker flaky_browser []"
  let ?job = "example_job 1 21"
  note t = handle_returns_or_throws
  have a: "\<forall>k<BROWSER_INSTANCE_TRIES.
        (\<exists>e. jobInstance (browser ?wb) (data ?job) k = Inl e \<and> e \<noteq> Nullish) \<and>
        repair (browser ?wb) k = None"
    by (simp add: example_worker_def broken_browser_def)
  from t[of ?wb ?job double_task 30000 "[]", THEN conjunct1, THEN mp, OF a]
  have 1: "fst (handle double_task ?job 30000 [] ?wb) = Inl (Error ''Unable to get browser page'')"
    "snd (snd (handle double_task ?job 30000 [] ?wb)) =
       concat (replicate BROWSER_INSTANCE_TRIES [CallJobInstance, CallRepair])"
    by simp_all
  have j: "jobInstance flaky_browser 21 9 = Inr stuck_instance"
    and cl: "close_result stuck_instance = Some (Error ''close failed'')"
    by (simp_all add: flaky_browser_def stuck_instance_def)
  have b: "9 < BROWSER_INSTANCE_TRIES \<and>
      jobInstance (browser ?wf) (data ?job) 9 = Inr stuck_instance \<and>
      (\<forall>k<9. (\<exists>e. jobInstance (browser ?wf) (data ?job) k = Inl e \<and> e \<noteq> Nullish) \<and>
              repair (browser ?wf) k = None) \<and>
      double_task (data ?job) (wid ?wf) 30000 \<noteq> Inl Nullish \<and>
      (close_result stuck_instance = None \<or>
       (\<exists>e. close_result stuck_instance = Some e \<and> e \<noteq> Nullish \<and> repair (browser ?wf) 9 = None))"
    by (simp add: example_worker_def flaky_browser_def stuck_instance_def
        BROWSER_INSTANCE_TRIES_def double_task_def)
  from t[of ?wf ?job double_task 30000 "[]", THEN conjunct2, THEN spec, THEN spec, THEN mp,
      OF b]
  have 2: "\<exists>r. fst (handle double_task ?job 30000 [] ?wf) = Inr r"
    by blast
  from 1 j cl 2 show ?thesis by blast
qed

text \<open>
  C3 (as amended). \<open>Worker.canHandle(job)\<close> is true when the provider defines
  \<open>canHandle\<close> and accepts \<open>job.data\<close>; in every other case, that is when the provider
  has no \<open>canHandle\<close> or when its \<open>canHandle\<close> refuses the payload, the result is
  whether \<open>activeJobs\<close> is empty.
\<close>

theorem canHandle_or_idle:
  "Worker_canHandle w job =
     ((case canHandle (browser w) of None \<Rightarrow> False | Some accepts \<Rightarrow> accepts (data job))
      \<or> activeJobs w = [])"
  by (auto simp: Worker_canHandle_def split: option.splits)

text \<open>
  C3 as stated fails: the provider defines \<open>canHandle\<close> and answers false, yet the
  idle worker's \<open>canHandle\<close> answers true.
\<close>

theorem canHandle_refusal_counterexample:
  "map_option (\<lambda>accepts. accepts (data (example_job 1 21)))
     (canHandle (browser (example_worker refusing_browser []))) = Some False \<and>
   Worker_canHandle (example_worker refusing_browser []) (example_job 1 21)"
  by (simp add: Worker_canHandle_def example_worker_def refusing_browser_def)

text \<open>
  C3 (as amended) at a refusing provider, idle and busy, and at an accepting provider
  that is busy.
\<close>

theorem canHandle_or_idle_witness:
  "Worker_canHandle (example_worker refusing_browser []) (example_job 1 21) \<and>
   \<not> Worker_canHandle (example_worker refusing_browser [example_job 2 5]) (example_job 1 21) \<and>
   Worker_canHandle (example_worker shared_browser [example_job 2 5]) (example_job 1 21)"
  using canHandle_or_idle[of "example_worker refusing_browser []" "example_job 1 21"]
    canHandle_or_idle[of "example_worker refusing_browser [example_job 2 5]" "example_job 1 21"]
    canHandle_or_idle[of "example_worker shared_browser [example_job 2 5]" "example_job 1 21"]
  by (simp add: example_worker_def refusing_browser_def shared_browser_def)

section \<open>Worker: release and activeJobs\<close>

text \<open>
  C9 (as amended). When the job instance was acquired, the task did not reject with
  \<open>null\<close> or \<open>undefined\<close>, and \<open>jobInstance.close()\<close> rejects during the release with
  a value other than \<open>null\<close> or \<open>undefined\<close>, \<open>provider.repair()\<close> is called right
  after the failed close. When that repair rejects, \<open>handle\<close> rejects with the same
  value. When it resolves, \<open>handle\<close> goes on and returns a \<open>WorkResult\<close>, the one the
  same run gives when \<open>close()\<close> resolves; when moreover the task fulfilled with \<open>v\<close>
  and the page reported no error, it is \<open>{type: "success", data: v}\<close>.
\<close>

theorem handle_release_failure:
  assumes "acquire (jobInstance (browser w) (data job)) (repair (browser w)) 0 [] =
             (Inr (ji, k), cs)"
    and "close_result ji = Some e" and "e \<noteq> Nullish"
    and "f (data job) (wid w) ms \<noteq> Inl Nullish"
  shows "snd (snd (handle f job ms others w)) = cs @ [CallTask, CallClose, CallRepair] \<and>
     (case repair (browser w) k of
        Some repair_err \<Rightarrow> fst (handle f job ms others w) = Inl repair_err
      | None \<Rightarrow>
          (\<exists>r. fst (handle f job ms others w) = Inr r \<and>
                fst (handle f job ms others (w\<lparr>browser := closing_ok (browser w)\<rparr>)) = Inr r \<and>
                (\<forall>v. f (data job) (wid w) ms = Inr v \<and> page_errors_task ji = [] \<and>
                      page_errors_release ji = [] \<longrightarrow> r = WorkData (Some v))))"
proof -
  let ?w = "w\<lparr>browser := closing_ok (browser w)\<rparr>"
  have "acquire (jobInstance (browser ?w) (data job)) (repair (browser ?w)) 0 [] =
          (Inr (ji\<lparr>close_result := None\<rparr>, k), cs)"
    using assms(1) by (simp add: closing_ok_acquire)
  from handle_acquired[OF this, of f ms others] handle_acquired[OF assms(1), of f ms others]
    assms(2-4)
  show ?thesis
    by (auto simp: handle_release_def handle_return_def Let_def closing_ok_def truthy_def
             split: sum.splits option.splits)
qed

text \<open>
  C9 as stated fails in two ways. When \<open>close()\<close> rejects and the repair that follows
  rejects too, \<open>handle\<close> rejects and the job is still in \<open>activeJobs\<close>. And when
  \<open>close()\<close> rejects, the repair resolves and the page reports an error during the
  release, a task that completed without error ends in an error result.
\<close>

theorem handle_release_failure_counterexample:
  "fst (handle double_task (example_job 1 21) 30000 [] (example_worker unrepairable_browser [])) =
     Inl (Error ''repair failed'') \<and>
   activeJobs (fst (snd (handle double_task (example_job 1 21) 30000 []
      (example_worker unrepairable_browser [])))) = [example_job 1 21] \<and>
   fst (handle double_task (example_job 1 21) 30000 [] (example_worker crashing_browser [])) =
     Inr (WorkError (Error ''page crashed''))"
  by (simp add: handle_def handle_release_def handle_return_def unrepairable_browser_def
      crashing_browser_def crashing_instance_def stuck_instance_def example_worker_def
      example_job_def new_Job_def double_task_def acquire.simps truthy_def Let_def)

text \<open>
  C9 (as amended) at a provider that fails nine times and then yields an instance whose
  \<open>close()\<close> rejects, with repairs that resolve, and at a provider whose repair
  rejects.
\<close>

theorem handle_release_failure_witness:
  "acquire (jobInstance (browser (example_worker flaky_browser [])) (data (example_job 1 21)))
      (repair (browser (example_worker flaky_browser []))) 0 [] =
     (Inr (stuck_instance, 9),
      concat (replicate 9 [CallJobInstance, CallRepair]) @ [CallJobInstance]) \<and>
   close_result stuck_instance = Some (Error ''close failed'') \<and>
   repair (browser (example_worker flaky_browser [])) 9 = None \<and>
   fst (handle double_task (example_job 1 21) 30000 [] (example_worker flaky_browser [])) =
     Inr (WorkData (Some 42)) \<and>
   snd (snd (handle double_task (example_job 1 21) 30000 [] (example_worker flaky_browser []))) =
     (concat (replicate 9 [CallJobInstance, CallRepair]) @ [CallJobInstance]) @
        [CallTask, CallClose, CallRepair] \<and>
   repair (browser (example_worker unrepairable_browser [])) 0 = Some (Error ''repair failed'') \<and>
   fst (handle double_task (example_job 1 21) 30000 [] (example_worker unrepairable_browser [])) =
     Inl (Error ''repair failed'')"
proof -
  let ?wf = "example_worker flaky_browser []"
  let ?wu = "example_worker unrepairable_browser []"
  let ?job = "example_job 1 21"
  have acq: "acquire (jobInstance (browser ?wf) (data ?job)) (repair (browser ?wf)) 0 [] =
     (Inr (stuck_instance, 9), concat (replicate 9 [CallJobInstance, CallRepair]) @ [CallJobInstance])"
    using acquire_first_ok[of "jobInstance flaky_browser 21" 9 stuck_instance 0
        "repair flaky_browser" "[]"]
    by (simp add: flaky_browser_def BROWSER_INSTANCE_TRIES_def example_worker_def
          example_job_def new_Job_def)
  have acqu: "acquire (jobInstance (browser ?wu) (data ?job)) (repair (browser ?wu)) 0 [] =
     (Inr (stuck_instance, 0), [CallJobInstance])"
    using acquire_first_ok[of "jobInstance unrepairable_browser 21" 0 stuck_instance 0
        "repair unrepairable_browser" "[]"]
    by (simp add: unrepairable_browser_def BROWSER_INSTANCE_TRIES_def example_worker_def
          example_job_def new_Job_def)
  have cl: "close_result stuck_instance = Some (Error ''close failed'')"
    by (simp add: stuck_instance_def)
  have ne: "Error ''close failed'' \<noteq> Nullish" by simp
  have tf: "double_task (data ?job) (wid ?wf) 30000 \<noteq> Inl Nullish"
    and tu: "double_task (data ?job) (wid ?wu) 30000 \<noteq> Inl Nullish"
    by (simp_all add: double_task_def)
  have rf: "repair (browser ?wf) 9 = None"
    and ru: "repair (browser ?wu) 0 = Some (Error ''repair failed'')"
    by (simp_all add: example_worker_def flaky_browser_def unrepairable_browser_def)
  note f = handle_release_failure[where w = ?wf and job = ?job and f = double_task
      and ms = 30000 and others = "[]", OF acq cl ne tf]
  note u = handle_release_failure[where w = ?wu and job = ?job and f = double_task
      and ms = 30000 and others = "[]", OF acqu cl ne tu]
  from f have fc: "snd (snd (handle double_task ?job 30000 [] ?wf)) =
      (concat (replicate 9 [CallJobInstance, CallRepair]) @ [CallJobInstance]) @
        [CallTask, CallClose, CallRepair]"
    by blast
  from f rf obtain r where
    r: "fst (handle double_task ?job 30000 [] ?wf) = Inr r"
    and rv: "\<forall>v. double_task (data ?job) (wid ?wf) 30000 = Inr v \<and>
               page_errors_task stuck_instance = [] \<and> page_errors_release stuck_instance = []
               \<longrightarrow> r = WorkData (Some v)"
    by auto
  from rv have "r = WorkData (Some 42)"
    by (simp add: double_task_def example_job_def new_Job_def stuck_instance_def)
  with r have fr: "fst (handle double_task ?job 30000 [] ?wf) = Inr (WorkData (Some 42))"
    by simp
  from u ru have ur: "fst (handle double_task ?job 30000 [] ?wu) = Inl (Error ''repair failed'')"
    by simp
  from acq cl rf fr fc ru ur show ?thesis by blast
qed

text \<open>
  C10 (as amended). Take a call of \<open>handle\<close> that returns a \<open>WorkResult\<close>, for a job
  that is not active on the worker at entry and that no other call on the worker
  handles. The call appends the job once on entry and removes it once before
  returning, so \<open>activeJobs\<close> after the call is its value before the call changed
  by nothing but what the other calls of \<open>handle\<close> on the same worker pushed and
  removed in the meantime. When there is no such other activity, \<open>activeJobs\<close>, and
  with it \<open>isIdle\<close> and \<open>canHandle\<close>, is after the call what it was before.
\<close>

theorem handle_activeJobs:
  assumes "fst (handle f job ms others w) = Inr r"
    and "job \<notin> set (activeJobs w)"
    and "job \<notin> set (map activity_job others)"
    and "others_ok (activeJobs w) others"
  shows "activeJobs (fst (snd (handle f job ms others w))) = others_apply others (activeJobs w) \<and>
         wid (fst (snd (handle f job ms others w))) = wid w \<and>
         browser (fst (snd (handle f job ms others w))) = browser w \<and>
         (others = [] \<longrightarrow>
            activeJobs (fst (snd (handle f job ms others w))) = activeJobs w \<and>
            isIdle (fst (snd (handle f job ms others w))) = isIdle w \<and>
            Worker_canHandle (fst (snd (handle f job ms others w))) j = Worker_canHandle w j)"
proof -
  let ?S = "others_apply others (activeJobs w @ [job])"
  have w': "fst (snd (handle f job ms others w)) =
      w\<lparr>activeJobs := splice1 (indexOf job ?S) ?S\<rparr>"
    by (rule handle_returned_worker[OF assms(1)])
  have r1: "remove1 job (activeJobs w @ [job]) = activeJobs w"
    using assms(2) by (simp add: remove1_append)
  have "job \<in> set (activeJobs w @ [job])" by simp
  from others_commute[OF this assms(3)] assms(4) r1
  have jin: "job \<in> set ?S" and c: "remove1 job ?S = others_apply others (activeJobs w)"
    by simp_all
  from splice1_indexOf[OF jin] c
  have a: "splice1 (indexOf job ?S) ?S = others_apply others (activeJobs w)" by simp
  from w' a show ?thesis
    by (auto simp: isIdle_def Worker_canHandle_def split: option.splits)
qed

text \<open>
  C10 as stated fails: on a worker whose provider accepts a second job while the first
  is active, a second call of \<open>handle\<close> enters while the first call awaits. When the
  first call returns its result, \<open>activeJobs\<close> holds the second job although it was
  empty before the call, and the worker is no longer idle.
\<close>

theorem handle_activeJobs_interleaved_counterexample:
  "fst (handle double_task (example_job 1 21) 30000 [Pushed (example_job 2 5)]
      (example_worker shared_browser [])) = Inr (WorkData (Some 42)) \<and>
   activeJobs (example_worker shared_browser []) = [] \<and>
   activeJobs (fst (snd (handle double_task (example_job 1 21) 30000 [Pushed (example_job 2 5)]
      (example_worker shared_browser [])))) = [example_job 2 5] \<and>
   isIdle (example_worker shared_browser []) \<and>
   \<not> isIdle (fst (snd (handle double_task (example_job 1 21) 30000 [Pushed (example_job 2 5)]
      (example_worker shared_browser []))))"
  by (simp add: handle_def handle_release_def handle_return_def shared_browser_def
      example_worker_def example_job_def new_Job_def clean_instance_def double_task_def
      acquire.simps indexOf_def splice1_def truthy_def isIdle_def Let_def)

text \<open>
  C10 (as amended) at a returning call on a worker that is busy with another job, once
  with a further call entering in the meantime and once without other activity.
\<close>

theorem handle_activeJobs_witness:
  "fst (handle double_task (example_job 3 21) 30000 [Pushed (example_job 2 5)]
      (example_worker shared_browser [example_job 4 7])) = Inr (WorkData (Some 42)) \<and>
   example_job 3 21 \<notin> set [example_job 4 7] \<and>
   example_job 3 21 \<notin> set (map activity_job [Pushed (example_job 2 5)]) \<and>
   others_ok [example_job 4 7] [Pushed (example_job 2 5)] \<and>
   activeJobs (fst (snd (handle double_task (example_job 3 21) 30000 [Pushed (example_job 2 5)]
      (example_worker shared_browser [example_job 4 7])))) = [example_job 4 7, example_job 2 5] \<and>
   fst (handle double_task (example_job 3 21) 30000 []
      (example_worker shared_browser [example_job 4 7])) = Inr (WorkData (Some 42)) \<and>
   activeJobs (fst (snd (handle double_task (example_job 3 21) 30000 []
      (example_worker shared_browser [example_job 4 7])))) = [example_job 4 7]"
proof -
  let ?w = "example_worker shared_browser [example_job 4 7]"
  let ?job = "example_job 3 21"
  let ?o = "[Pushed (example_job 2 5)] :: (nat, nat) activity list"
  have h: "fst (handle double_task ?job 30000 ?o ?w) = Inr (WorkData (Some 42))"
    and h0: "fst (handle double_task ?job 30000 [] ?w) = Inr (WorkData (Some 42))"
    by (simp_all add: handle_def handle_release_def handle_return_def shared_browser_def
      example_worker_def example_job_def new_Job_def clean_instance_def double_task_def
      acquire.simps truthy_def Let_def)
  have n: "?job \<notin> set (activeJobs ?w)"
    and m: "?job \<notin> set (map activity_job ?o)"
    and m0: "?job \<notin> set (map activity_job ([] :: (nat, nat) activity list))"
    and ok: "others_ok (activeJobs ?w) ?o"
    and ok0: "others_ok (activeJobs ?w) []"
    by (simp_all add: example_worker_def example_job_def new_Job_def)
  have aw: "activeJobs ?w = [example_job 4 7]"
    by (simp add: example_worker_def)
  from handle_activeJobs[OF h n m ok, of ?job] aw
  have 1: "activeJobs (fst (snd (handle double_task ?job 30000 ?o ?w))) =
      [example_job 4 7, example_job 2 5]"
    by simp
  from handle_activeJobs[OF h0 n m0 ok0, of ?job] aw
  have 2: "activeJobs (fst (snd (handle double_task ?job 30000 [] ?w))) = [example_job 4 7]"
    by simp
  from n m ok aw have "?job \<notin> set [example_job 4 7]" "others_ok [example_job 4 7] ?o"
    by simp_all
  with h h0 1 2 m show ?thesis by blast
qed

section \<open>Cluster: what doWork does with the result of handle\<close>

lemma work_fields [simp]:
  "effects (work now c) = effects c"
  "options (work now c) = options c"
  "jobQueue (work now c) = jobQueue c"
  "duplicateCheckUrls (work now c) = duplicateCheckUrls c"
  "errorCount (work now c) = errorCount c"
  "idleResolvers (work now c) = idleResolvers c"
  "waitForOneResolvers (work now c) = waitForOneResolvers c"
  "workers (work now c) = workers c"
  by (simp_all add: work_def Let_def)

lemma callback_calls_append [simp]:
  "callback_calls p (xs @ ys) = callback_calls p xs @ callback_calls p ys"
  by (simp add: callback_calls_def)

lemma callback_calls_waitForOne [simp]:
  "callback_calls p (map (\<lambda>resolve. ResolveWaitForOne resolve d) rs) = []"
  by (induction rs) (simp_all add: callback_calls_def)

text \<open>
  C2 (as amended). For a job that carries execute callbacks and for which
  \<open>worker.handle\<close> returned a \<open>WorkResult\<close>, the rest of \<open>doWork\<close> calls exactly one
  of the two callbacks, once: \<open>resolve(data)\<close> on a success result and
  \<open>reject(error)\<close> on an error result. The job is not pushed onto the queue again, so
  no later iteration reaches its callbacks.
\<close>

theorem execute_job_settled_once:
  assumes "executeCallbacks job = Some p"
  shows "\<exists>c'. doWork_result now job (Inr result) c = (Inr job, c') \<and>
           callback_calls p (effects c') =
             callback_calls p (effects c) @
               [case result of WorkData d \<Rightarrow> ExecuteResolve p d | WorkError e \<Rightarrow> ExecuteReject p e] \<and>
           jobQueue c' = jobQueue c"
  using assms
  by (cases result) (simp_all add: doWork_result_def Let_def callback_calls_def)

text \<open>C2 (as amended) at a job of \<open>execute\<close> whose task succeeded.\<close>

theorem execute_job_settled_once_witness:
  "executeCallbacks (new_Job 2 0 None None None (Some 5) :: (nat, nat) Job) = Some 5 \<and>
   (\<exists>c'. doWork_result 40 (new_Job 2 0 None None None (Some 5)) (Inr (WorkData (Some 0)))
            (launch DEFAULT_OPTIONS :: (nat, nat) Cluster) =
              (Inr (new_Job 2 0 None None None (Some 5)), c') \<and>
          callback_calls 5 (effects c') = [ExecuteResolve 5 (Some 0)] \<and> jobQueue c' = [])"
proof -
  let ?job = "new_Job 2 0 None None None (Some 5) :: (nat, nat) Job"
  let ?c = "launch DEFAULT_OPTIONS :: (nat, nat) Cluster"
  have h: "executeCallbacks ?job = Some 5"
    by (simp add: new_Job_def)
  have e: "effects ?c = []" "jobQueue ?c = []"
    by (simp_all add: launch_def)
  from execute_job_settled_once[OF h, of 40 "WorkData (Some 0)" ?c] obtain c' where
    "doWork_result 40 ?job (Inr (WorkData (Some 0))) ?c = (Inr ?job, c')"
    "callback_calls 5 (effects c') =
       callback_calls 5 (effects ?c) @ [ExecuteResolve 5 (Some 0)]"
    "jobQueue c' = jobQueue ?c"
    by auto
  with e have "doWork_result 40 ?job (Inr (WorkData (Some 0))) ?c = (Inr ?job, c') \<and>
     callback_calls 5 (effects c') = [ExecuteResolve 5 (Some 0)] \<and> jobQueue c' = []"
    by (simp add: callback_calls_def)
  then show ?thesis using h by blast
qed

text \<open>
  C2 as stated fails: with \<open>skipDuplicateUrls\<close>, a job enqueued by \<open>execute\<close> whose
  url was already handed to a worker is removed from the queue by the duplicate check.
  After that the queue is empty, only the first job was passed to a worker, and neither
  callback of the promise has been called.
\<close>

theorem execute_duplicate_never_settled_counterexample:
  "jobQueue (run duplicate_events (launch skip_options)) = [] \<and>
   effects (run duplicate_events (launch skip_options)) =
     [EmitQueue 0,
      CallHandle 0 (new_Job 1 0 (Some ''https://a'') (Some ''a'') (Some double_task) None),
      EmitQueue 0] \<and>
   callback_calls 5 (effects (run duplicate_events (launch skip_options))) = []"
  by (simp add: duplicate_events_def launch_def skip_options_def DEFAULT_OPTIONS_def
      queue_def execute_def queueJob_def new_Job_def Queue_push_def work_def
      WORK_CALL_INTERVAL_LIMIT_def
      doWork_dispatch_def Queue_size_def Queue_peek_def ready_def isDuplicateUrl_def
      sameDomainDelayUntil_def free_pool_def example_worker_def commitJob_def
      scheduleNextWork_def jobFunction_of_def begin_handle_def callback_calls_def Let_def)

text \<open>
  The path on which \<open>handle\<close> throws: the \<open>catch\<close> in \<open>doWork\<close> swallows the
  exception, \<open>result\<close> is still \<open>null\<close>, and the iteration ends with a TypeError before
  any callback, \<open>waitForOne\<close> resolver or \<open>work()\<close> is reached. For a job of
  \<open>execute\<close> on a worker whose provider never yields a job instance, the job has left
  the queue and neither callback has been called.
\<close>

lemma doWork_result_after_throw:
  "doWork_result now job (Inl err) c =
     (Inl (Error ''TypeError: cannot read properties of null''), c)"
  by (simp add: doWork_result_def)

lemma doWork_handle_throws_example:
  "fst (doWork 10 (free_pool (example_worker broken_browser [])) 20
          (execute 5 3 21 None None (Some double_task) 0 (launch DEFAULT_OPTIONS))) =
     Thrown (Error ''TypeError: cannot read properties of null'') \<and>
   callback_calls 5 (effects (snd (doWork 10 (free_pool (example_worker broken_browser [])) 20
          (execute 5 3 21 None None (Some double_task) 0 (launch DEFAULT_OPTIONS))))) = [] \<and>
   jobQueue (snd (doWork 10 (free_pool (example_worker broken_browser [])) 20
          (execute 5 3 21 None None (Some double_task) 0 (launch DEFAULT_OPTIONS)))) = []"
proof -
  let ?job = "new_Job 3 21 None None (Some double_task) (Some 5) :: (nat, nat) Job"
  let ?w = "example_worker broken_browser []"
  let ?c = "execute 5 3 21 None None (Some double_task) 0 (launch DEFAULT_OPTIONS)
              :: (nat, nat) Cluster"
  let ?c1 = "(launch DEFAULT_OPTIONS :: (nat, nat) Cluster)\<lparr>allTargetCount := 1,
               nextWorkCall := 10, workCallTimeout := Some 10,
               effects := [EmitQueue 21, CallHandle 0 ?job]\<rparr>"
  have h: "handle double_task ?job 30000 [] ?w =
      (Inl (Error ''Unable to get browser page''), ?w\<lparr>activeJobs := activeJobs ?w @ [?job]\<rparr>,
       concat (replicate BROWSER_INSTANCE_TRIES [CallJobInstance, CallRepair]))"
    using handle_throws[of ?w ?job double_task 30000 "[]"]
    by (simp add: broken_browser_def example_worker_def)
  have d: "doWork_dispatch 10 (free_pool ?w) ?c = (Handling ?w ?job double_task, ?c1)"
    by (simp add: launch_def DEFAULT_OPTIONS_def execute_def queueJob_def new_Job_def
        Queue_push_def work_def WORK_CALL_INTERVAL_LIMIT_def doWork_dispatch_def
        Queue_size_def Queue_peek_def ready_def isDuplicateUrl_def sameDomainDelayUntil_def
        free_pool_def example_worker_def commitJob_def scheduleNextWork_def
        jobFunction_of_def Let_def)
  have t: "timeout (options (launch DEFAULT_OPTIONS :: (nat, nat) Cluster)) = 30000"
    by (simp add: launch_def DEFAULT_OPTIONS_def)
  have "doWork 10 (free_pool ?w) 20 ?c =
      (Thrown (Error ''TypeError: cannot read properties of null''),
       ?c1\<lparr>workers := map (\<lambda>w. if wid w = wid ?w then ?w\<lparr>activeJobs := activeJobs ?w @ [?job]\<rparr>
                                  else w) (workers ?c1)\<rparr>)"
    unfolding doWork_def d by (simp add: t h doWork_result_after_throw)
  then show ?thesis
    by (simp add: launch_def callback_calls_def)
qed

text \<open>
  C6. For a job that carries execute callbacks, an error result makes \<open>doWork\<close> call
  \<open>callbacks.reject\<close> with the error exactly once and add one to \<open>errorCount\<close>; the
  queue is left as it is, whatever \<open>retryLimit\<close> is configured.
\<close>

theorem execute_job_error_rejected:
  assumes "executeCallbacks job = Some p"
  shows "\<exists>c'. doWork_result now job (Inr (WorkError e)) c = (Inr job, c') \<and>
           effects c' = effects c @ [ExecuteReject p e] @
              map (\<lambda>resolve. ResolveWaitForOne resolve (data job)) (waitForOneResolvers c) \<and>
           callback_calls p (effects c') = callback_calls p (effects c) @ [ExecuteReject p e] \<and>
           errorCount c' = errorCount c + 1 \<and>
           jobQueue c' = jobQueue c"
  using assms
  by (simp add: doWork_result_def Let_def callback_calls_def)

text \<open>C6 at \<open>retryLimit = 5\<close>: the job is rejected and not queued again.\<close>

theorem execute_job_error_rejected_witness:
  "executeCallbacks (new_Job 2 0 None None None (Some 5) :: (nat, nat) Job) = Some 5 \<and>
   retryLimit retry_options = 5 \<and>
   (\<exists>c'. doWork_result 40 (new_Job 2 0 None None None (Some 5)) (Inr (WorkError (Error ''E'')))
            (launch retry_options :: (nat, nat) Cluster) =
              (Inr (new_Job 2 0 None None None (Some 5)), c') \<and>
          effects c' = [ExecuteReject 5 (Error ''E'')] \<and> errorCount c' = 1 \<and> jobQueue c' = [])"
proof -
  let ?job = "new_Job 2 0 None None None (Some 5) :: (nat, nat) Job"
  let ?c = "launch retry_options :: (nat, nat) Cluster"
  have h: "executeCallbacks ?job = Some 5"
    by (simp add: new_Job_def)
  have e: "effects ?c = []" "jobQueue ?c = []" "errorCount ?c = 0" "waitForOneResolvers ?c = []"
    by (simp_all add: launch_def)
  have r: "retryLimit retry_options = 5"
    by (simp add: retry_options_def)
  from execute_job_error_rejected[OF h, of 40 "Error ''E''" ?c] obtain c' where
    "doWork_result 40 ?job (Inr (WorkError (Error ''E''))) ?c = (Inr ?job, c')"
    "effects c' = effects ?c @ [ExecuteReject 5 (Error ''E'')] @
       map (\<lambda>resolve. ResolveWaitForOne resolve (data ?job)) (waitForOneResolvers ?c)"
    "errorCount c' = errorCount ?c + 1"
    "jobQueue c' = jobQueue ?c"
    by auto
  with e have "doWork_result 40 ?job (Inr (WorkError (Error ''E''))) ?c = (Inr ?job, c') \<and>
     effects c' = [ExecuteReject 5 (Error ''E'')] \<and> errorCount c' = 1 \<and> jobQueue c' = []"
    by simp
  then show ?thesis using h r by blast
qed

text \<open>
  C7. For a job without execute callbacks and an error result, the error is appended
  to \<open>job.errors\<close> and \<open>taskerror\<close> is emitted with
  \<open>willRetry = (job.tries \<le> retryLimit)\<close>, \<open>job.tries\<close> being read after \<open>addError\<close>.
  When \<open>willRetry\<close> holds the job is pushed at the end of the queue and \<open>errorCount\<close>
  is unchanged: for \<open>retryDelay > 0\<close> with \<open>delayUntil = now + retryDelay\<close>, and with no
  delay otherwise, that is with no \<open>delayUntil\<close> for \<open>retryDelay = 0\<close> and, the test in
  the code being \<open>retryDelay !== 0\<close>, with a \<open>delayUntil\<close> that has already passed for
  a negative \<open>retryDelay\<close>, so that the entry is ready at once in both cases. When
  \<open>willRetry\<close> does not hold the queue is unchanged and \<open>errorCount\<close> grows by one.
\<close>

theorem queued_job_error_retry:
  assumes "executeCallbacks job = None"
  shows "\<exists>job' c'. doWork_result now job (Inr (WorkError e)) c = (Inr job', c') \<and>
           job' = addError e job \<and> errors job' = errors job @ [e] \<and>
           effects c' = effects c @
              [EmitTaskerror e (data job) (tries job' \<le> retryLimit (options c))] @
              map (\<lambda>resolve. ResolveWaitForOne resolve (data job)) (waitForOneResolvers c) \<and>
           (if tries job' \<le> retryLimit (options c)
            then (\<exists>entry. jobQueue c' = jobQueue c @ [entry] \<and> item entry = job' \<and>
                    (if retryDelay (options c) > 0
                     then delayUntil entry = Some (now + retryDelay (options c))
                     else ready now entry \<and>
                          (retryDelay (options c) = 0 \<longrightarrow> delayUntil entry = None))) \<and>
                 errorCount c' = errorCount c
            else jobQueue c' = jobQueue c \<and> errorCount c' = errorCount c + 1)"
  using assms
  by (simp add: doWork_result_def Let_def addError_def Queue_push_def ready_def)

text \<open>
  C7 at \<open>retryLimit = 5\<close> and \<open>retryDelay = 50\<close>: a job with no earlier attempt is
  retried at time 90, a job with six attempts is counted as an error.
\<close>

theorem queued_job_error_retry_witness:
  "executeCallbacks (example_job 3 21) = None \<and>
   (\<exists>c'. doWork_result 40 (example_job 3 21) (Inr (WorkError (Error ''E'')))
            (launch retry_options :: (nat, nat) Cluster) =
              (Inr (addError (Error ''E'') (example_job 3 21)), c') \<and>
          effects c' = [EmitTaskerror (Error ''E'') 21 True] \<and>
          jobQueue c' =
            [\<lparr>item = addError (Error ''E'') (example_job 3 21), delayUntil = Some 90\<rparr>] \<and>
          errorCount c' = 0) \<and>
   executeCallbacks ((example_job 3 21)\<lparr>tries := 6\<rparr>) = None \<and>
   (\<exists>c'. doWork_result 40 ((example_job 3 21)\<lparr>tries := 6\<rparr>) (Inr (WorkError (Error ''E'')))
            (launch retry_options :: (nat, nat) Cluster) =
              (Inr (addError (Error ''E'') ((example_job 3 21)\<lparr>tries := 6\<rparr>)), c') \<and>
          effects c' = [EmitTaskerror (Error ''E'') 21 False] \<and>
          jobQueue c' = [] \<and> errorCount c' = 1)"
proof -
  let ?c = "launch retry_options :: (nat, nat) Cluster"
  let ?j = "example_job 3 21"
  let ?j6 = "(example_job 3 21)\<lparr>tries := 6\<rparr>"
  have h: "executeCallbacks ?j = None" and h6: "executeCallbacks ?j6 = None"
    by (simp_all add: example_job_def new_Job_def)
  have e: "effects ?c = []" "jobQueue ?c = []" "errorCount ?c = 0" "waitForOneResolvers ?c = []"
      "retryLimit (options ?c) = 5" "retryDelay (options ?c) = 50"
    by (simp_all add: launch_def retry_options_def)
  have t: "tries (addError (Error ''E'') ?j) = 0" "tries (addError (Error ''E'') ?j6) = 6"
      "data ?j = 21"
    by (simp_all add: addError_def example_job_def new_Job_def)
  from queued_job_error_retry[OF h, of 40 "Error ''E''" ?c] obtain c1 where
    c1: "doWork_result 40 ?j (Inr (WorkError (Error ''E''))) ?c =
          (Inr (addError (Error ''E'') ?j), c1)"
        "effects c1 = [EmitTaskerror (Error ''E'') 21 True]"
        "\<exists>entry. jobQueue c1 = [entry] \<and> item entry = addError (Error ''E'') ?j \<and>
            delayUntil entry = Some 90"
        "errorCount c1 = 0"
    by (auto simp: e t)
  from c1(3) have q1: "jobQueue c1 =
      [\<lparr>item = addError (Error ''E'') ?j, delayUntil = Some 90\<rparr>]"
    by auto
  from queued_job_error_retry[OF h6, of 40 "Error ''E''" ?c] obtain c2 where
    c2: "doWork_result 40 ?j6 (Inr (WorkError (Error ''E''))) ?c =
          (Inr (addError (Error ''E'') ?j6), c2)"
        "effects c2 = [EmitTaskerror (Error ''E'') 21 False]"
        "jobQueue c2 = []" "errorCount c2 = 1"
    by (auto simp: e t)
  from c1(1,2,4) q1 c2 h h6 show ?thesis by blast
qed

section \<open>Cluster: the dispatch and the duplicate check\<close>

lemma handled_urls_append [simp]:
  "handled_urls (xs @ ys) = handled_urls xs @ handled_urls ys"
  by (simp add: handled_urls_def)

lemma handled_urls_Nil [simp]: "handled_urls [] = []"
  by (simp add: handled_urls_def)

lemma handled_urls_Cons [simp]:
  "handled_urls (e # es) =
     (case e of
        CallHandle w job \<Rightarrow> (case getUrl job of Some u \<Rightarrow> [u] | None \<Rightarrow> [])
      | _ \<Rightarrow> []) @ handled_urls es"
  by (simp add: handled_urls_def)

lemma handled_urls_ResolveIdle [simp]: "handled_urls (map ResolveIdle rs) = []"
  by (induction rs) simp_all

lemma handled_urls_ResolveWaitForOne [simp]:
  "handled_urls (map (\<lambda>resolve. ResolveWaitForOne resolve d) rs) = []"
  by (induction rs) simp_all

lemma scheduleNextWork_fields [simp]:
  "effects (scheduleNextWork b now c) = effects c"
  "options (scheduleNextWork b now c) = options c"
  "jobQueue (scheduleNextWork b now c) = jobQueue c"
  "duplicateCheckUrls (scheduleNextWork b now c) = duplicateCheckUrls c"
  "idleResolvers (scheduleNextWork b now c) = idleResolvers c"
  by (simp_all add: scheduleNextWork_def)

lemma commitJob_fields [simp]:
  "effects (commitJob now b job c) = effects c"
  "options (commitJob now b job c) = options c"
  "jobQueue (commitJob now b job c) = Queue_remove job (jobQueue c)"
  "idleResolvers (commitJob now b job c) = idleResolvers c"
  "duplicateCheckUrls (commitJob now b job c) =
     (if skipDuplicateUrls (options c)
      then (case getUrl job of None \<Rightarrow> duplicateCheckUrls c
            | Some u \<Rightarrow> insert u (duplicateCheckUrls c))
      else duplicateCheckUrls c)"
  by (simp_all add: commitJob_def Let_def split: option.splits)

lemma dispatch_frame:
  assumes "doWork_dispatch now pool c = (out, c')"
  shows "options c' = options c \<and> duplicateCheckUrls c \<subseteq> duplicateCheckUrls c' \<and>
     (case out of
        Handling w job f \<Rightarrow>
          effects c' = effects c @ [CallHandle (wid w) job] \<and>
          (skipDuplicateUrls (options c) \<longrightarrow>
             (\<forall>u. getUrl job = Some u \<longrightarrow> u \<notin> duplicateCheckUrls c \<and> u \<in> duplicateCheckUrls c'))
      | _ \<Rightarrow> handled_urls (effects c') = handled_urls (effects c))"
  using assms
  by (auto simp: doWork_dispatch_def Let_def isDuplicateUrl_def
           split: if_splits option.splits)

lemma result_frame:
  "options (snd (doWork_result now job handled c)) = options c \<and>
   duplicateCheckUrls (snd (doWork_result now job handled c)) = duplicateCheckUrls c \<and>
   handled_urls (effects (snd (doWork_result now job handled c))) = handled_urls (effects c)"
  by (auto simp: doWork_result_def Let_def split: sum.splits WorkResult.splits option.splits)

lemma step_invariant:
  assumes "skipDuplicateUrls (options c)"
    and "set (handled_urls (effects c)) \<subseteq> duplicateCheckUrls c"
    and "distinct (handled_urls (effects c))"
  shows "skipDuplicateUrls (options (step ev c)) \<and>
         set (handled_urls (effects (step ev c))) \<subseteq> duplicateCheckUrls (step ev c) \<and>
         distinct (handled_urls (effects (step ev c)))"
proof (cases ev)
  case (Call_queue i d u dm f now)
  with assms show ?thesis by (simp add: queue_def queueJob_def Let_def)
next
  case (Call_execute promise i d u dm f now)
  with assms show ?thesis by (simp add: execute_def queueJob_def Let_def)
next
  case (Call_task f)
  with assms show ?thesis by (simp add: task_def)
next
  case (Call_idle resolve)
  with assms show ?thesis by (simp add: idle_def)
next
  case (Call_waitForOne resolve)
  with assms show ?thesis by (simp add: waitForOne_def)
next
  case (Call_close browser_close)
  with assms show ?thesis by (simp add: close_def monitor_tick_def Let_def)
next
  case (Poll now)
  with assms show ?thesis by simp
next
  case (Timer now pool)
  let ?c = "c\<lparr>workCallTimeout := None\<rparr>"
  obtain out c' where d: "doWork_dispatch now pool ?c = (out, c')"
    by (cases "doWork_dispatch now pool ?c") auto
  note fr = dispatch_frame[OF d]
  from fr have o: "options c' = options c" by simp
  from fr have s: "duplicateCheckUrls c \<subseteq> duplicateCheckUrls c'" by simp
  have i: "set (handled_urls (effects c')) \<subseteq> duplicateCheckUrls c' \<and>
        distinct (handled_urls (effects c'))"
  proof (cases out)
    case (Handling w job f)
    with fr assms s show ?thesis by (cases "getUrl job") auto
  qed (use fr assms s in auto)
  have "options (step ev c) = options c' \<and> effects (step ev c) = effects c' \<and>
        duplicateCheckUrls (step ev c) = duplicateCheckUrls c'"
    using Timer d by (cases out) simp_all
  with i o assms(1) show ?thesis by simp
next
  case (Settled now i job handled)
  let ?c = "c\<lparr>workers := (case handled of
                               Inr result \<Rightarrow> end_handle i job (workers c)
                             | Inl err \<Rightarrow> workers c),
                effects := effects c @ [HandleSettled i job]\<rparr>"
  from result_frame[of now job handled ?c] assms Settled show ?thesis by simp
qed

lemma run_invariant:
  assumes "skipDuplicateUrls (options c)"
    and "set (handled_urls (effects c)) \<subseteq> duplicateCheckUrls c"
    and "distinct (handled_urls (effects c))"
  shows "distinct (handled_urls (effects (run evs c)))"
  using assms
proof (induction evs arbitrary: c)
  case Nil
  then show ?case by simp
next
  case (Cons ev evs)
  from step_invariant[OF Cons.prems, of ev] Cons.IH[of "step ev c"] show ?case by simp
qed

lemma peek_nonempty: "Queue_peek now q = Some job \<Longrightarrow> Queue_size q \<noteq> 0"
  by (cases q) (simp_all add: Queue_peek_def Queue_size_def)

lemma dispatch_duplicate:
  assumes "skipDuplicateUrls (options c)" and "Queue_peek now (jobQueue c) = Some job"
    and "getUrl job = Some u" and "u \<in> duplicateCheckUrls c"
  shows "doWork_dispatch now pool c =
           (SkippedDuplicate job, work now (c\<lparr>jobQueue := Queue_remove job (jobQueue c)\<rparr>))"
  using assms peek_nonempty[OF assms(2)]
  by (simp add: doWork_dispatch_def isDuplicateUrl_def)

lemma dispatch_handling:
  assumes "skipDuplicateUrls (options c)" and "doWork_dispatch now pool c = (Handling w job f, c')"
    and "getUrl job = Some u"
  shows "u \<in> duplicateCheckUrls c' \<and> effects c' = effects c @ [CallHandle (wid w) job]"
  using dispatch_frame[OF assms(2)] assms(1,3) by simp

text \<open>
  C8. With \<open>skipDuplicateUrls\<close>, in every execution that starts at a launched
  cluster the urls of the jobs passed to \<open>worker.handle\<close> are pairwise distinct: no
  url is handed to a worker twice. A peeked job whose url is already in
  \<open>duplicateCheckUrls\<close> is removed from the queue and the iteration ends without a call
  of \<open>handle\<close>; and when the iteration calls \<open>handle\<close> for a job with a url, that url
  is in \<open>duplicateCheckUrls\<close> at the call.
\<close>

theorem skipDuplicateUrls_at_most_once:
  assumes "skipDuplicateUrls opts"
  shows "distinct (handled_urls (effects (run evs (launch opts)))) \<and>
     (\<forall>now pool c job u.
        skipDuplicateUrls (options c) \<and> Queue_peek now (jobQueue c) = Some job \<and>
        getUrl job = Some u \<and> u \<in> duplicateCheckUrls c \<longrightarrow>
        doWork_dispatch now pool c =
          (SkippedDuplicate job, work now (c\<lparr>jobQueue := Queue_remove job (jobQueue c)\<rparr>)) \<and>
        effects (snd (doWork_dispatch now pool c)) = effects c) \<and>
     (\<forall>now pool c w job f c' u.
        skipDuplicateUrls (options c) \<and> doWork_dispatch now pool c = (Handling w job f, c') \<and>
        getUrl job = Some u \<longrightarrow>
        u \<in> duplicateCheckUrls c' \<and> effects c' = effects c @ [CallHandle (wid w) job])"
proof -
  have "distinct (handled_urls (effects (run evs (launch opts))))"
    by (rule run_invariant) (simp_all add: launch_def assms)
  moreover have "\<forall>now pool c job u.
        skipDuplicateUrls (options c) \<and> Queue_peek now (jobQueue c) = Some job \<and>
        getUrl job = Some u \<and> u \<in> duplicateCheckUrls c \<longrightarrow>
        doWork_dispatch now pool c =
          (SkippedDuplicate job, work now (c\<lparr>jobQueue := Queue_remove job (jobQueue c)\<rparr>)) \<and>
        effects (snd (doWork_dispatch now pool c)) = effects c"
    by (auto simp: dispatch_duplicate)
  moreover have "\<forall>now pool c w job f c' u.
        skipDuplicateUrls (options c) \<and> doWork_dispatch now pool c = (Handling w job f, c') \<and>
        getUrl job = Some u \<longrightarrow>
        u \<in> duplicateCheckUrls c' \<and> effects c' = effects c @ [CallHandle (wid w) job]"
    using dispatch_handling by blast
  ultimately show ?thesis by blast
qed

lemma duplicate_events_run:
  "jobQueue (run duplicate_events (launch skip_options)) = [] \<and>
   effects (run duplicate_events (launch skip_options)) =
     [EmitQueue 0,
      CallHandle 0 (new_Job 1 0 (Some ''https://a'') (Some ''a'') (Some double_task) None),
      EmitQueue 0]"
  by (simp add: duplicate_events_def launch_def skip_options_def DEFAULT_OPTIONS_def
      queue_def execute_def queueJob_def new_Job_def Queue_push_def work_def
      WORK_CALL_INTERVAL_LIMIT_def
      doWork_dispatch_def Queue_size_def Queue_peek_def ready_def isDuplicateUrl_def
      sameDomainDelayUntil_def free_pool_def example_worker_def commitJob_def
      scheduleNextWork_def jobFunction_of_def begin_handle_def Let_def)

lemma duplicate_events_before_skip:
  "skipDuplicateUrls (options (run (take 3 duplicate_events) (launch skip_options))) \<and>
   Queue_peek 30 (jobQueue (run (take 3 duplicate_events) (launch skip_options))) =
     Some (new_Job 2 0 (Some ''https://a'') (Some ''a'') (Some double_task) (Some 5)) \<and>
   ''https://a'' \<in> duplicateCheckUrls (run (take 3 duplicate_events) (launch skip_options)) \<and>
   effects (run (take 3 duplicate_events) (launch skip_options)) =
     [EmitQueue 0,
      CallHandle 0 (new_Job 1 0 (Some ''https://a'') (Some ''a'') (Some double_task) None),
      EmitQueue 0]"
  by (simp add: duplicate_events_def launch_def skip_options_def DEFAULT_OPTIONS_def
      queue_def execute_def queueJob_def new_Job_def Queue_push_def work_def
      WORK_CALL_INTERVAL_LIMIT_def
      doWork_dispatch_def Queue_size_def Queue_peek_def ready_def isDuplicateUrl_def
      sameDomainDelayUntil_def free_pool_def example_worker_def commitJob_def
      scheduleNextWork_def jobFunction_of_def begin_handle_def Let_def)

text \<open>
  C8 at the execution \<open>duplicate_events\<close>: two jobs for the same url are enqueued,
  one call of \<open>handle\<close> is made, and the iteration that peeks the second job ends at
  the duplicate check without a further call.
\<close>

theorem skipDuplicateUrls_at_most_once_witness:
  "skipDuplicateUrls skip_options \<and>
   distinct (handled_urls (effects (run duplicate_events (launch skip_options)))) \<and>
   handled_urls (effects (run duplicate_events (launch skip_options))) = [''https://a''] \<and>
   fst (doWork_dispatch 30 (free_pool (example_worker shared_browser []))
          (run (take 3 duplicate_events) (launch skip_options))) =
     SkippedDuplicate (new_Job 2 0 (Some ''https://a'') (Some ''a'') (Some double_task) (Some 5)) \<and>
   effects (snd (doWork_dispatch 30 (free_pool (example_worker shared_browser []))
          (run (take 3 duplicate_events) (launch skip_options)))) =
     [EmitQueue 0,
      CallHandle 0 (new_Job 1 0 (Some ''https://a'') (Some ''a'') (Some double_task) None),
      EmitQueue 0]"
proof -
  let ?c = "run (take 3 duplicate_events) (launch skip_options) :: (nat, nat) Cluster"
  let ?job = "new_Job 2 0 (Some ''https://a'') (Some ''a'') (Some double_task) (Some 5)
                :: (nat, nat) Job"
  have s: "skipDuplicateUrls skip_options"
    by (simp add: skip_options_def)
  note t = skipDuplicateUrls_at_most_once[OF s, of duplicate_events]
  from t have d: "distinct (handled_urls (effects (run duplicate_events
          (launch skip_options :: (nat, nat) Cluster))))"
    by blast
  have u: "getUrl ?job = Some ''https://a''"
    by (simp add: new_Job_def)
  from t duplicate_events_before_skip u
  have k: "doWork_dispatch 30 (free_pool (example_worker shared_browser [])) ?c =
          (SkippedDuplicate ?job, work 30 (?c\<lparr>jobQueue := Queue_remove ?job (jobQueue ?c)\<rparr>)) \<and>
        effects (snd (doWork_dispatch 30 (free_pool (example_worker shared_browser [])) ?c)) =
          effects ?c"
    by blast
  have h: "handled_urls (effects (run duplicate_events (launch skip_options))) =
      [''https://a'']"
    using duplicate_events_run by (simp add: new_Job_def)
  from k duplicate_events_before_skip have
    "fst (doWork_dispatch 30 (free_pool (example_worker shared_browser [])) ?c) =
       SkippedDuplicate ?job"
    "effects (snd (doWork_dispatch 30 (free_pool (example_worker shared_browser [])) ?c)) =
     [EmitQueue 0,
      CallHandle 0 (new_Job 1 0 (Some ''https://a'') (Some ''a'') (Some double_task) None),
      EmitQueue 0]"
    by simp_all
  with s d h show ?thesis by blast
qed

section \<open>Cluster: idle and close\<close>

lemma busyWorkersCount_zero: "busyWorkersCount ws = 0 \<longleftrightarrow> \<not> isAnyJobActive ws"
  by (induction ws) (simp_all add: busyWorkersCount_def isAnyJobActive_def isIdle_def)

lemma idle_resolved_only_when_idle:
  assumes "doWork_dispatch now pool c = (out, c')"
    and "ResolveIdle r \<in> set (effects c')" and "ResolveIdle r \<notin> set (effects c)"
  shows "Queue_size (jobQueue c) = 0 \<and> busyWorkersCount (workers c) = 0 \<and>
         r \<in> set (idleResolvers c)"
  using assms
  by (auto simp: doWork_dispatch_def Let_def busyWorkersCount_zero
           split: if_splits option.splits)

lemma dispatch_idle:
  assumes "Queue_size (jobQueue c) = 0" and "\<not> isAnyJobActive (workers c)"
  shows "doWork_dispatch now pool c =
           (QueueEmpty, c\<lparr>effects := effects c @ map ResolveIdle (idleResolvers c)\<rparr>)"
  using assms by (simp add: doWork_dispatch_def)

text \<open>
  C4. When \<open>doWork\<close> finds the queue empty and no worker active, it calls every
  resolver in \<open>idleResolvers\<close>, but it does not clear the list: after the iteration
  the cluster that was waiting with one resolver still holds it, and the next such
  iteration calls the same resolver again.
\<close>

theorem doWork_keeps_idleResolvers:
  "doWork_dispatch 100 (free_pool (example_worker shared_browser [])) waiting_cluster =
     (QueueEmpty, waiting_cluster\<lparr>effects := [ResolveIdle 7]\<rparr>) \<and>
   idleResolvers (waiting_cluster\<lparr>effects := [ResolveIdle 7]\<rparr>) = [7] \<and>
   doWork_dispatch 200 (free_pool (example_worker shared_browser []))
       (waiting_cluster\<lparr>effects := [ResolveIdle 7]\<rparr>) =
     (QueueEmpty, waiting_cluster\<lparr>effects := [ResolveIdle 7, ResolveIdle 7]\<rparr>)"
  by (simp add: doWork_dispatch_def waiting_cluster_def idle_def launch_def Queue_size_def
      isAnyJobActive_def)




end
